theory Spec2Isabelle
  imports Complex_Main "HOL-Library.AList"
begin

section \<open>Values, rows and documents\<close>

text \<open>
  A cell of a MySQL row as the cursor hands it over: \<open>None\<close>, an integer, a string, a
  \<open>datetime.date\<close> (year, month, day) or a \<open>datetime.datetime\<close> (with hour, minute,
  second). Strings are lists of 8-bit characters. All of these are hashable, so they
  serve as dictionary keys.
\<close>

datatype pyval =
    PNone
  | PInt int
  | PStr string
  | PDate nat nat nat
  | PDateTime nat nat nat nat nat nat

text \<open>A row of a \<open>DictCursor\<close>: column name and value, in column order.\<close>

type_synonym row = "(string \<times> pyval) list"

text \<open>A MongoDB document: a dictionary in insertion order, with embedded lists.\<close>

datatype doc =
    Val pyval
  | Lst "doc list"
  | Dict "(string \<times> doc) list"

datatype exn =
    KeyError string
  | TypeError
  | ValueError
  | AttributeError
  | BulkWriteError "nat list"
  | OtherError string
  | SystemExit int

datatype level = INFO | WARNING | ERROR

datatype arg = AVal pyval | AStr string | AInt int | AExn exn

text \<open>
  What a run does to the outside world, in order: the log records (level, message
  template, interpolated values) and the calls on the two database drivers.
\<close>

datatype event =
    Log level string "arg list"
  | Connect
  | Execute string
  | Close
  | MongoClient
  | DeleteMany string
  | InsertMany string "doc list"
  | MongoClose

text \<open>The driver calls among the events of a trace, the log records left out.\<close>

definition calls_of :: "event list \<Rightarrow> event list" where
  "calls_of t = filter (\<lambda>ev. case ev of Log l msg args \<Rightarrow> False | _ \<Rightarrow> True) t"

text \<open>The value under a key of a document.\<close>

definition doc_field :: "doc \<Rightarrow> string \<Rightarrow> doc option" where
  "doc_field d k = (case d of Dict kvs \<Rightarrow> map_of kvs k | _ \<Rightarrow> None)"

section \<open>Control flow: exceptions, the trace of events, the source connection\<close>

text \<open>
  The state of a run: the events so far, and whether the extractor's \<open>connection\<close>
  attribute holds a connection (it is \<open>None\<close> until \<open>connect\<close> succeeds).
\<close>

record state =
  trace :: "event list"
  connection :: bool

text \<open>A computation either raises (\<open>Inl\<close>) or returns (\<open>Inr\<close>), with the new state.\<close>

type_synonym 'a m = "state \<Rightarrow> (exn + 'a) \<times> state"

text \<open>
  What a driver call can raise: a \<open>BulkWriteError\<close> with the indices of the documents
  that were not written (an unordered \<open>insert_many\<close> raises it after trying every
  document), or some other exception of the driver.
\<close>

datatype driver_error = BulkWriteFailure "nat list" | DriverFailure string

definition raised :: "driver_error \<Rightarrow> exn" where
  "raised f = (case f of BulkWriteFailure details \<Rightarrow> BulkWriteError details
                       | DriverFailure msg \<Rightarrow> OtherError msg)"

text \<open>
  The two database servers: what a driver call answers after the events so far, a
  failure or the rows fetched (only \<open>Execute\<close> returns rows that are looked at).
\<close>

type_synonym env = "event list \<Rightarrow> event \<Rightarrow> driver_error + row list"

definition m_return :: "'a \<Rightarrow> 'a m" where
  "m_return x s = (Inr x, s)"

definition m_raise :: "exn \<Rightarrow> 'a m" where
  "m_raise e s = (Inl e, s)"

definition m_bind :: "'a m \<Rightarrow> ('a \<Rightarrow> 'b m) \<Rightarrow> 'b m" where
  "m_bind c f s = (case c s of (Inl e, s') \<Rightarrow> (Inl e, s') | (Inr x, s') \<Rightarrow> f x s')"

text \<open>\<open>SystemExit\<close> is not an \<open>Exception\<close>: no \<open>except Exception\<close> clause catches it.\<close>

definition is_Exception :: "exn \<Rightarrow> bool" where
  "is_Exception e = (case e of SystemExit n \<Rightarrow> False | _ \<Rightarrow> True)"

text \<open>\<open>try: c except Exception as e: h e\<close>\<close>

definition m_try :: "'a m \<Rightarrow> (exn \<Rightarrow> 'a m) \<Rightarrow> 'a m" where
  "m_try c h s =
     (case c s of
        (Inl e, s') \<Rightarrow> if is_Exception e then h e s' else (Inl e, s')
      | (Inr x, s') \<Rightarrow> (Inr x, s'))"

text \<open>\<open>try: c finally: f\<close>: an exception of the cleanup replaces the pending result.\<close>

definition m_finally :: "'a m \<Rightarrow> unit m \<Rightarrow> 'a m" where
  "m_finally c f s =
     (case c s of (r, s') \<Rightarrow>
        (case f s' of (Inl e, s'') \<Rightarrow> (Inl e, s'') | (Inr _, s'') \<Rightarrow> (r, s'')))"

definition emit :: "event \<Rightarrow> state \<Rightarrow> state" where
  "emit ev s = s\<lparr>trace := trace s @ [ev]\<rparr>"

definition logging :: "level \<Rightarrow> string \<Rightarrow> arg list \<Rightarrow> unit m" where
  "logging l msg args s = (Inr (), emit (Log l msg args) s)"

text \<open>A call on a driver: the server answers on the events so far; the call is recorded.\<close>

definition call :: "env \<Rightarrow> event \<Rightarrow> row list m" where
  "call world ev s =
     (case world (trace s) ev of Inl f \<Rightarrow> Inl (raised f) | Inr rows \<Rightarrow> Inr rows, emit ev s)"

text \<open>A computation that raises nothing but instances of \<open>Exception\<close>.\<close>

definition only_Exceptions :: "'a m \<Rightarrow> bool" where
  "only_Exceptions c = (\<forall>s e s'. c s = (Inl e, s') \<longrightarrow> is_Exception e)"

text \<open>A computation that leaves an open connection open.\<close>

definition keeps_connection :: "'a m \<Rightarrow> bool" where
  "keeps_connection c = (\<forall>s. connection s \<longrightarrow> connection (snd (c s)))"

text \<open>A \<open>for\<close> loop that appends one result per element; the first exception ends it.\<close>

fun for_append :: "('a \<Rightarrow> 'b m) \<Rightarrow> 'a list \<Rightarrow> 'b list m" where
  "for_append f [] = m_return []"
| "for_append f (x # xs) =
     m_bind (f x) (\<lambda>y. m_bind (for_append f xs) (\<lambda>ys. m_return (y # ys)))"

text \<open>A \<open>for\<close> loop run for its effects.\<close>

fun for_each :: "('a \<Rightarrow> 'b m) \<Rightarrow> 'a list \<Rightarrow> unit m" where
  "for_each f [] = m_return ()"
| "for_each f (x # xs) = m_bind (f x) (\<lambda>_. for_each f xs)"

section \<open>Dictionary access and truth values\<close>

text \<open>\<open>row[k]\<close> raises \<open>KeyError\<close> on a missing key; \<open>row.get(k, d)\<close> does not.\<close>

definition getitem :: "row \<Rightarrow> string \<Rightarrow> pyval m" where
  "getitem r k = (case map_of r k of None \<Rightarrow> m_raise (KeyError k) | Some v \<Rightarrow> m_return v)"

definition get_default :: "row \<Rightarrow> string \<Rightarrow> pyval \<Rightarrow> pyval" where
  "get_default r k d = (case map_of r k of None \<Rightarrow> d | Some v \<Rightarrow> v)"

definition get :: "row \<Rightarrow> string \<Rightarrow> pyval" where
  "get r k = get_default r k PNone"

fun truthy :: "pyval \<Rightarrow> bool" where
  "truthy PNone = False"
| "truthy (PInt n) = (n \<noteq> 0)"
| "truthy (PStr s) = (s \<noteq> [])"
| "truthy (PDate y mo d) = True"
| "truthy (PDateTime y mo d h mi s) = True"

section \<open>\<open>datetime.strptime(value, '%Y-%m-%d')\<close>\<close>

text \<open>
  The standard library matches the regular expression
  \<^verbatim>\<open>(\d\d\d\d)-(1[0-2]|0[1-9]|[1-9])-(3[0-1]|[1-2]\d|0[1-9]|[1-9]| [1-9])\<close>
  at the start of the string, refuses a string with characters left over, and then
  builds the date, which refuses year 0 and a day beyond the month's length. A value
  that is not a string is a \<open>TypeError\<close>, every other failure a \<open>ValueError\<close>.
\<close>

definition is_digit :: "char \<Rightarrow> bool" where
  "is_digit c = (c \<in> set ''0123456789'')"

definition digit_val :: "char \<Rightarrow> nat" where
  "digit_val c = of_char c - 48"

text \<open>The month: the first alternative that matches, with the rest of the string.\<close>

fun match_month :: "string \<Rightarrow> (nat \<times> string) option" where
  "match_month (a # b # s) =
     (if a = CHR ''1'' \<and> b \<in> set ''012'' then Some (10 + digit_val b, s)
      else if a = CHR ''0'' \<and> b \<in> set ''123456789'' then Some (digit_val b, s)
      else if a \<in> set ''123456789'' then Some (digit_val a, b # s)
      else None)"
| "match_month [a] = (if a \<in> set ''123456789'' then Some (digit_val a, []) else None)"
| "match_month [] = None"

fun match_day :: "string \<Rightarrow> (nat \<times> string) option" where
  "match_day (a # b # s) =
     (if a = CHR ''3'' \<and> b \<in> set ''01'' then Some (30 + digit_val b, s)
      else if a \<in> set ''12'' \<and> is_digit b then Some (10 * digit_val a + digit_val b, s)
      else if a = CHR ''0'' \<and> b \<in> set ''123456789'' then Some (digit_val b, s)
      else if a \<in> set ''123456789'' then Some (digit_val a, b # s)
      else if a = CHR '' '' \<and> b \<in> set ''123456789'' then Some (digit_val b, s)
      else None)"
| "match_day [a] = (if a \<in> set ''123456789'' then Some (digit_val a, []) else None)"
| "match_day [] = None"

fun match_ymd :: "string \<Rightarrow> (nat \<times> nat \<times> nat \<times> string) option" where
  "match_ymd (a # b # c # d # e # s) =
     (if is_digit a \<and> is_digit b \<and> is_digit c \<and> is_digit d \<and> e = CHR ''-'' then
        (case match_month s of
           None \<Rightarrow> None
         | Some (mo, s') \<Rightarrow>
             (case s' of
                [] \<Rightarrow> None
              | f # s'' \<Rightarrow>
                  if f = CHR ''-'' then
                    (case match_day s'' of
                       None \<Rightarrow> None
                     | Some (dd, rest) \<Rightarrow>
                         Some (1000 * digit_val a + 100 * digit_val b + 10 * digit_val c
                                 + digit_val d, mo, dd, rest))
                  else None))
      else None)"
| "match_ymd _ = None"

definition is_leap :: "nat \<Rightarrow> bool" where
  "is_leap y = (y mod 4 = 0 \<and> (y mod 100 \<noteq> 0 \<or> y mod 400 = 0))"

definition days_in_month :: "nat \<Rightarrow> nat \<Rightarrow> nat" where
  "days_in_month y mo =
     (if mo = 2 then (if is_leap y then 29 else 28)
      else if mo \<in> {4, 6, 9, 11} then 30 else 31)"

definition strptime :: "pyval \<Rightarrow> pyval m" where
  "strptime v =
     (case v of
        PStr s \<Rightarrow>
          (case match_ymd s of
             None \<Rightarrow> m_raise ValueError
           | Some (y, mo, d, rest) \<Rightarrow>
               if rest \<noteq> [] then m_raise ValueError
               else if y < 1 \<or> days_in_month y mo < d then m_raise ValueError
               else m_return (PDateTime y mo d 0 0 0))
      | _ \<Rightarrow> m_raise TypeError)"

text \<open>
  The specification's reading of ``a string in \<open>YYYY-MM-DD\<close> form'': four digits, a
  hyphen, two digits, a hyphen, two digits, naming a day of the calendar; the result is
  that day. It is the yardstick the parser above is compared with.
\<close>

fun iso_date :: "string \<Rightarrow> (nat \<times> nat \<times> nat) option" where
  "iso_date [a, b, c, d, p, e, f, q, g, h] =
     (if is_digit a \<and> is_digit b \<and> is_digit c \<and> is_digit d \<and> p = CHR ''-''
         \<and> is_digit e \<and> is_digit f \<and> q = CHR ''-'' \<and> is_digit g \<and> is_digit h
      then
        (let y = 1000 * digit_val a + 100 * digit_val b + 10 * digit_val c + digit_val d;
             mo = 10 * digit_val e + digit_val f;
             dd = 10 * digit_val g + digit_val h
         in if 1 \<le> y \<and> 1 \<le> mo \<and> mo \<le> 12 \<and> 1 \<le> dd \<and> dd \<le> days_in_month y mo
            then Some (y, mo, dd) else None)
      else None)"
| "iso_date _ = None"

section \<open>DB\_Migration/pipeline.py: \<open>DataTransformer\<close>\<close>

definition is_date :: "pyval \<Rightarrow> bool" where
  "is_date v = (case v of PDate y mo d \<Rightarrow> True | PDateTime y mo d h mi s \<Rightarrow> True | _ \<Rightarrow> False)"

definition convert_date :: "pyval \<Rightarrow> pyval m" where
  "convert_date date_str =
     m_try (if is_date date_str then m_return date_str else strptime date_str)
       (\<lambda>exc. m_bind
          (logging ERROR ''Date conversion error for value %s: %s'' [AVal date_str, AExn exc])
          (\<lambda>_. m_raise exc))"

text \<open>The body of the loop over \<open>dept_emps\<close>: one embedded department entry.\<close>

definition department_entry :: "(pyval \<rightharpoonup> row) \<Rightarrow> row \<Rightarrow> doc m" where
  "department_entry departments_lookup de =
     m_bind (getitem de ''dept_no'') (\<lambda>dept_no.
     let department =
           (case departments_lookup dept_no of
              None \<Rightarrow> [(''dept_no'', dept_no), (''dept_name'', PStr ''Unknown'')]
            | Some dept \<Rightarrow> dept)
     in
     m_bind (getitem department ''dept_no'') (\<lambda>dno.
     m_bind (getitem department ''dept_name'') (\<lambda>dname.
     m_bind (m_bind (getitem de ''from_date'') convert_date) (\<lambda>from_date.
     m_bind (m_bind (getitem de ''to_date'') convert_date) (\<lambda>to_date.
     m_return (Dict [(''dept_no'', Val dno), (''dept_name'', Val dname),
                     (''from_date'', Val from_date), (''to_date'', Val to_date)]))))))"

definition salary_entry :: "row \<Rightarrow> doc m" where
  "salary_entry sal =
     m_bind (getitem sal ''salary'') (\<lambda>salary.
     m_bind (m_bind (getitem sal ''from_date'') convert_date) (\<lambda>from_date.
     m_bind (m_bind (getitem sal ''to_date'') convert_date) (\<lambda>to_date.
     m_return (Dict [(''salary'', Val salary),
                     (''from_date'', Val from_date), (''to_date'', Val to_date)]))))"

definition title_entry :: "row \<Rightarrow> doc m" where
  "title_entry tit =
     m_bind (getitem tit ''title'') (\<lambda>title.
     m_bind (m_bind (getitem tit ''from_date'') convert_date) (\<lambda>from_date.
     m_bind (getitem tit ''to_date'') (\<lambda>c.
     m_bind (if truthy c then m_bind (getitem tit ''to_date'') convert_date
             else m_return PNone) (\<lambda>to_date.
     m_return (Dict [(''title'', Val title),
                     (''from_date'', Val from_date), (''to_date'', Val to_date)])))))"

text \<open>The managerial record: the first row of the list, when there is one.\<close>

definition management_entry :: "row list \<Rightarrow> doc m" where
  "management_entry dept_managers =
     (case dept_managers of
        [] \<Rightarrow> m_return (Val PNone)
      | mgr # _ \<Rightarrow>
          m_bind (getitem mgr ''dept_no'') (\<lambda>dept_no.
          m_bind (m_bind (getitem mgr ''from_date'') convert_date) (\<lambda>from_date.
          m_bind (m_bind (getitem mgr ''to_date'') convert_date) (\<lambda>to_date.
          m_return (Dict [(''dept_no'', Val dept_no),
                          (''from_date'', Val from_date), (''to_date'', Val to_date)])))))"

definition transform_employee ::
  "row \<Rightarrow> row list \<Rightarrow> row list \<Rightarrow> row list \<Rightarrow> row list \<Rightarrow> (pyval \<rightharpoonup> row) \<Rightarrow> doc m" where
  "transform_employee employee dept_emps dept_managers salaries titles departments_lookup =
     m_try
       (m_bind (getitem employee ''emp_no'') (\<lambda>emp_no.
        m_bind (m_bind (getitem employee ''birth_date'') convert_date) (\<lambda>birth_date.
        m_bind (getitem employee ''first_name'') (\<lambda>first_name.
        m_bind (getitem employee ''last_name'') (\<lambda>last_name.
        m_bind (getitem employee ''gender'') (\<lambda>gender.
        m_bind (m_bind (getitem employee ''hire_date'') convert_date) (\<lambda>hire_date.
        m_bind (for_append (department_entry departments_lookup) dept_emps) (\<lambda>departments.
        m_bind (for_append salary_entry salaries) (\<lambda>sals.
        m_bind (for_append title_entry titles) (\<lambda>tits.
        m_bind (management_entry dept_managers) (\<lambda>management.
        m_return (Dict [(''emp_no'', Val emp_no), (''birth_date'', Val birth_date),
                        (''first_name'', Val first_name), (''last_name'', Val last_name),
                        (''gender'', Val gender), (''hire_date'', Val hire_date),
                        (''departments'', Lst departments), (''salaries'', Lst sals),
                        (''titles'', Lst tits), (''management'', management)]))))))))))))
       (\<lambda>exc. m_bind
          (logging ERROR ''Error transforming employee %s: %s''
             [AVal (get_default employee ''emp_no'' (PStr ''<unknown>'')), AExn exc])
          (\<lambda>_. m_raise exc))"

section \<open>DB\_Migration/pipeline.py: \<open>MySQLExtractor\<close>\<close>

definition set_connection :: "unit m" where
  "set_connection s = (Inr (), s\<lparr>connection := True\<rparr>)"

definition connect :: "env \<Rightarrow> unit m" where
  "connect world =
     m_try
       (m_bind (call world Connect) (\<lambda>_.
        m_bind set_connection (\<lambda>_.
        logging INFO ''MySQL connection established'' [])))
       (\<lambda>exc. m_bind (logging ERROR ''Error connecting to MySQL: %s'' [AExn exc])
          (\<lambda>_. m_raise exc))"

text \<open>Without a connection, \<open>self.connection.cursor()\<close> is an attribute error on \<open>None\<close>.\<close>

text \<open>\<open>MySQLExtractor.extract\<close>\<close>

definition extract_query :: "env \<Rightarrow> string \<Rightarrow> row list m" where
  \<open>extract_query world query =
     m_try
       (\<lambda>s. if connection s then call world (Execute query) s else m_raise AttributeError s)
       (\<lambda>exc. m_bind (logging ERROR ''Error executing query "%s": %s'' [AStr query, AExn exc])
          (\<lambda>_. m_raise exc))\<close>

definition close :: "env \<Rightarrow> unit m" where
  "close world s =
     (if connection s
      then m_bind (call world Close) (\<lambda>_. logging INFO ''MySQL connection closed'' []) s
      else m_return () s)"

section \<open>DB\_Migration/pipeline.py: \<open>MongoLoader\<close>\<close>

definition MongoLoader_init :: "env \<Rightarrow> unit m" where
  "MongoLoader_init world =
     m_try
       (m_bind (call world MongoClient) (\<lambda>_. logging INFO ''Connected to MongoDB'' []))
       (\<lambda>exc. m_bind (logging ERROR ''Error connecting to MongoDB: %s'' [AExn exc])
          (\<lambda>_. m_raise exc))"

text \<open>\<open>range(start, stop, step)\<close> as a list; a zero step is a \<open>ValueError\<close>.\<close>

definition py_range :: "int \<Rightarrow> int \<Rightarrow> int \<Rightarrow> int list m" where
  "py_range start stop step =
     (if step = 0 then m_raise ValueError
      else if 0 < step then
        m_return (map (\<lambda>k. start + int k * step)
                    [0 ..< nat ((stop - start + step - 1) div step)])
      else
        m_return (map (\<lambda>k. start + int k * step)
                    [0 ..< nat ((start - stop - step - 1) div (- step))]))"

text \<open>\<open>xs[i:j]\<close>: a negative bound counts from the end, and bounds are clipped.\<close>

definition slice :: "'a list \<Rightarrow> int \<Rightarrow> int \<Rightarrow> 'a list" where
  "slice xs i j =
     (let n = int (length xs);
          lo = (if i < 0 then max (i + n) 0 else min i n);
          hi = (if j < 0 then max (j + n) 0 else min j n)
      in take (nat (hi - lo)) (drop (nat lo) xs))"

definition load_collection :: "env \<Rightarrow> string \<Rightarrow> doc list \<Rightarrow> int \<Rightarrow> unit m" where
  \<open>load_collection world collection_name documents batch_size =
     m_try
       (m_bind (call world (DeleteMany collection_name)) (\<lambda>_.
        if documents \<noteq> [] then
          m_bind (py_range 0 (int (length documents)) batch_size) (\<lambda>indices.
          m_bind (for_each
                    (\<lambda>i. call world
                       (InsertMany collection_name (slice documents i (i + batch_size))))
                    indices) (\<lambda>_.
          logging INFO ''Loaded %d documents into collection "%s"''
            [AInt (int (length documents)), AStr collection_name]))
        else m_return ()))
       (\<lambda>exc. case exc of
          BulkWriteError details \<Rightarrow>
            m_bind (logging ERROR ''Bulk write error: %s'' [AExn exc]) (\<lambda>_. m_raise exc)
        | _ \<Rightarrow>
            m_bind (logging ERROR ''Error loading documents into collection "%s": %s''
                      [AStr collection_name, AExn exc])
              (\<lambda>_. m_raise exc))\<close>

text \<open>
  The batches the loop of \<open>load_collection\<close> goes through for a positive batch size:
  \<open>documents[i:i+batch_size]\<close> for \<open>i\<close> in \<open>range(0, len(documents), batch_size)\<close>.
\<close>

definition batches :: "'a list \<Rightarrow> int \<Rightarrow> 'a list list" where
  "batches documents batch_size =
     map (\<lambda>k. slice documents (int k * batch_size) (int k * batch_size + batch_size))
       [0 ..< nat ((int (length documents) + batch_size - 1) div batch_size)]"

section \<open>DB\_Migration/pipeline.py: \<open>main\<close>\<close>

text \<open>\<open>{dept['dept_no']: dept for dept in departments}\<close>: a later row replaces an earlier one.\<close>

fun departments_lookup_of :: "row list \<Rightarrow> (pyval \<rightharpoonup> row) \<Rightarrow> (pyval \<rightharpoonup> row) m" where
  "departments_lookup_of [] lookup = m_return lookup"
| "departments_lookup_of (dept # depts) lookup =
     m_bind (getitem dept ''dept_no'') (\<lambda>dept_no.
     departments_lookup_of depts (lookup(dept_no \<mapsto> dept)))"

text \<open>\<open>by_emp.setdefault(emp_no, []).append(rec)\<close> for every row, in source order.\<close>

fun by_emp :: "row list \<Rightarrow> (pyval \<rightharpoonup> row list) \<Rightarrow> (pyval \<rightharpoonup> row list) m" where
  "by_emp [] idx = m_return idx"
| "by_emp (rec # recs) idx =
     m_bind (getitem rec ''emp_no'') (\<lambda>emp_no.
     by_emp recs
       (idx(emp_no \<mapsto> (case idx emp_no of None \<Rightarrow> [] | Some rows \<Rightarrow> rows) @ [rec])))"

text \<open>\<open>idx.get(emp_no, [])\<close>\<close>

definition get_rows :: "(pyval \<rightharpoonup> row list) \<Rightarrow> pyval \<Rightarrow> row list" where
  "get_rows idx emp_no = (case idx emp_no of None \<Rightarrow> [] | Some rows \<Rightarrow> rows)"

text \<open>
  The loop over the employees (lines 276 to 288): \<open>emp['emp_no']\<close> is read outside the
  inner \<open>try\<close>; a failing transformation is logged and the employee skipped.
\<close>

fun employee_loop ::
  "(pyval \<rightharpoonup> row list) \<Rightarrow> (pyval \<rightharpoonup> row list) \<Rightarrow> (pyval \<rightharpoonup> row list) \<Rightarrow>
   (pyval \<rightharpoonup> row list) \<Rightarrow> (pyval \<rightharpoonup> row) \<Rightarrow> row list \<Rightarrow> doc list \<Rightarrow> doc list m" where
  "employee_loop dept_emp_by_emp dept_manager_by_emp salaries_by_emp titles_by_emp
     departments_lookup [] employee_documents = m_return employee_documents"
| "employee_loop dept_emp_by_emp dept_manager_by_emp salaries_by_emp titles_by_emp
     departments_lookup (emp # emps) employee_documents =
     m_bind (getitem emp ''emp_no'') (\<lambda>emp_no.
     m_bind
       (m_try
          (m_bind
             (transform_employee emp (get_rows dept_emp_by_emp emp_no)
                (get_rows dept_manager_by_emp emp_no) (get_rows salaries_by_emp emp_no)
                (get_rows titles_by_emp emp_no) departments_lookup)
             (\<lambda>transformed_doc. m_return (employee_documents @ [transformed_doc])))
          (\<lambda>exc. m_bind
             (logging ERROR ''Skipping employee %s due to transformation error.''
                [AVal emp_no])
             (\<lambda>_. m_return employee_documents)))
       (\<lambda>employee_documents'.
     employee_loop dept_emp_by_emp dept_manager_by_emp salaries_by_emp titles_by_emp
       departments_lookup emps employee_documents'))"

text \<open>A raw row handed to the loader as a document.\<close>

definition row_doc :: "row \<Rightarrow> doc" where
  "row_doc r = Dict (map (\<lambda>(k, v). (k, Val v)) r)"

text \<open>The body of the \<open>try\<close> block of \<open>main\<close>.\<close>

definition main_try :: "env \<Rightarrow> unit m" where
  "main_try world =
     m_bind (connect world) (\<lambda>_.
     m_bind (extract_query world ''SELECT * FROM employees'') (\<lambda>employees.
     m_bind (extract_query world ''SELECT * FROM departments'') (\<lambda>departments.
     m_bind (extract_query world ''SELECT * FROM dept_emp'') (\<lambda>dept_emp.
     m_bind (extract_query world ''SELECT * FROM dept_manager'') (\<lambda>dept_manager.
     m_bind (extract_query world ''SELECT * FROM salaries'') (\<lambda>salaries.
     m_bind (extract_query world ''SELECT * FROM titles'') (\<lambda>titles.
     m_bind (departments_lookup_of departments Map.empty) (\<lambda>departments_lookup.
     m_bind (by_emp dept_emp Map.empty) (\<lambda>dept_emp_by_emp.
     m_bind (by_emp dept_manager Map.empty) (\<lambda>dept_manager_by_emp.
     m_bind (by_emp salaries Map.empty) (\<lambda>salaries_by_emp.
     m_bind (by_emp titles Map.empty) (\<lambda>titles_by_emp.
     m_bind (employee_loop dept_emp_by_emp dept_manager_by_emp salaries_by_emp
               titles_by_emp departments_lookup employees []) (\<lambda>employee_documents.
     m_bind (MongoLoader_init world) (\<lambda>_.
     m_bind (load_collection world ''employees'' employee_documents 1000) (\<lambda>_.
     m_bind (load_collection world ''departments'' (map row_doc departments) 1000) (\<lambda>_.
     logging INFO ''ETL pipeline executed successfully'' []))))))))))))))))"

definition main :: "env \<Rightarrow> unit m" where
  "main world =
     m_finally
       (m_try (main_try world) (\<lambda>e. logging ERROR ''ETL pipeline failed: %s'' [AExn e]))
       (close world)"

text \<open>
  The exit status of the process: 0 when the script returns, the argument of
  \<open>sys.exit\<close>, and 1 when an exception is not caught.
\<close>

definition exit_status :: "exn + unit \<Rightarrow> int" where
  "exit_status r = (case r of Inr _ \<Rightarrow> 0 | Inl (SystemExit n) \<Rightarrow> n | Inl _ \<Rightarrow> 1)"

definition init_state :: state where
  "init_state = \<lparr>trace = [], connection = False\<rparr>"

section \<open>pipeline.py: \<open>MySQLExtractor\<close>\<close>

definition connect_etl :: "env \<Rightarrow> unit m" where
  "connect_etl world =
     m_try
       (m_bind (call world Connect) (\<lambda>_.
        m_bind set_connection (\<lambda>_.
        logging INFO ''Connected to MySQL database.'' [])))
       (\<lambda>e. m_bind (logging ERROR ''Error connecting to MySQL: {e}'' [AExn e])
          (\<lambda>_. m_raise e))"

definition fetch_data :: "env \<Rightarrow> string \<Rightarrow> row list m" where
  "fetch_data world query =
     m_try
       (m_bind
          (\<lambda>s. if connection s then call world (Execute query) s
                else m_raise AttributeError s) (\<lambda>data.
        m_bind (logging INFO ''Executed query: {query}'' [AStr query]) (\<lambda>_.
        m_return data)))
       (\<lambda>e. m_bind (logging ERROR ''Error executing query: {query} : {e}'' [AStr query, AExn e])
          (\<lambda>_. m_raise e))"

definition close_etl :: "env \<Rightarrow> unit m" where
  "close_etl world s =
     (if connection s
      then m_bind (call world Close) (\<lambda>_. logging INFO ''Closed MySQL connection.'' []) s
      else m_return () s)"

section \<open>pipeline.py: \<open>DataTransformer\<close>\<close>

definition transform_date :: "pyval \<Rightarrow> pyval m" where
  "transform_date date_str =
     m_try (if truthy date_str then strptime date_str else m_return PNone)
       (\<lambda>e. m_bind
          (logging ERROR ''Error converting date {date_str}: {e}'' [AVal date_str, AExn e])
          (\<lambda>_. m_return PNone))"

definition transform_employee_etl :: "row \<Rightarrow> doc m" where
  "transform_employee_etl employee_row =
     m_bind (transform_date (get employee_row ''birth_date'')) (\<lambda>birth_date.
     m_bind (transform_date (get employee_row ''hire_date'')) (\<lambda>hire_date.
     m_return (Dict [(''emp_no'', Val (get employee_row ''emp_no'')),
                     (''birth_date'', Val birth_date),
                     (''first_name'', Val (get employee_row ''first_name'')),
                     (''last_name'', Val (get employee_row ''last_name'')),
                     (''gender'', Val (get employee_row ''gender'')),
                     (''hire_date'', Val hire_date),
                     (''titles'', Lst []), (''salaries'', Lst []),
                     (''departments'', Lst [])])))"

definition transform_title :: "row \<Rightarrow> doc m" where
  "transform_title title_row =
     m_bind (transform_date (get title_row ''from_date'')) (\<lambda>from_date.
     m_bind (transform_date (get title_row ''to_date'')) (\<lambda>to_date.
     m_return (Dict [(''title'', Val (get title_row ''title'')),
                     (''from_date'', Val from_date), (''to_date'', Val to_date)])))"

definition transform_salary :: "row \<Rightarrow> doc m" where
  "transform_salary salary_row =
     m_bind (transform_date (get salary_row ''from_date'')) (\<lambda>from_date.
     m_bind (transform_date (get salary_row ''to_date'')) (\<lambda>to_date.
     m_return (Dict [(''salary'', Val (get salary_row ''salary'')),
                     (''from_date'', Val from_date), (''to_date'', Val to_date)])))"

definition transform_department_assignment :: "row \<Rightarrow> doc m" where
  "transform_department_assignment dept_emp_row =
     m_bind (transform_date (get dept_emp_row ''from_date'')) (\<lambda>from_date.
     m_bind (transform_date (get dept_emp_row ''to_date'')) (\<lambda>to_date.
     m_return (Dict [(''dept_no'', Val (get dept_emp_row ''dept_no'')),
                     (''from_date'', Val from_date), (''to_date'', Val to_date)])))"

definition transform_department :: "row \<Rightarrow> doc m" where
  "transform_department dept_row =
     m_return (Dict [(''dept_no'', Val (get dept_row ''dept_no'')),
                     (''dept_name'', Val (get dept_row ''dept_name''))])"

definition transform_dept_manager :: "row \<Rightarrow> doc m" where
  "transform_dept_manager dept_manager_row =
     m_bind (transform_date (get dept_manager_row ''from_date'')) (\<lambda>from_date.
     m_bind (transform_date (get dept_manager_row ''to_date'')) (\<lambda>to_date.
     m_return (Dict [(''emp_no'', Val (get dept_manager_row ''emp_no'')),
                     (''dept_no'', Val (get dept_manager_row ''dept_no'')),
                     (''from_date'', Val from_date), (''to_date'', Val to_date)])))"

section \<open>pipeline.py: \<open>MongoDBLoader\<close>\<close>

definition MongoDBLoader_init :: "env \<Rightarrow> unit m" where
  "MongoDBLoader_init world =
     m_try
       (m_bind (call world MongoClient) (\<lambda>_. logging INFO ''Connected to MongoDB.'' []))
       (\<lambda>e. m_bind (logging ERROR ''Error connecting to MongoDB: {e}'' [AExn e])
          (\<lambda>_. m_raise e))"

text \<open>
  An \<open>insert_many\<close> that returns has inserted every document, so the number of
  \<open>inserted_ids\<close> it reports is the number of documents.
\<close>

definition insert_employees :: "env \<Rightarrow> doc list \<Rightarrow> unit m" where
  "insert_employees world employees =
     (if employees = [] then logging WARNING ''No employee records to insert.'' []
      else
        m_try
          (m_bind (call world (InsertMany ''employees'' employees)) (\<lambda>_.
           logging INFO ''Inserted {len(result.inserted_ids)} employee records.''
             [AInt (int (length employees))]))
          (\<lambda>e. case e of
             BulkWriteError details \<Rightarrow>
               logging ERROR ''Bulk write error inserting employees: {bwe.details}'' [AExn e]
           | _ \<Rightarrow> logging ERROR ''Error inserting employees: {e}'' [AExn e]))"

definition insert_departments :: "env \<Rightarrow> doc list \<Rightarrow> unit m" where
  "insert_departments world departments =
     (if departments = [] then logging WARNING ''No department records to insert.'' []
      else
        m_try
          (m_bind (call world (InsertMany ''departments'' departments)) (\<lambda>_.
           logging INFO ''Inserted {len(result.inserted_ids)} department records.''
             [AInt (int (length departments))]))
          (\<lambda>e. case e of
             BulkWriteError details \<Rightarrow>
               logging ERROR ''Bulk write error inserting departments: {bwe.details}'' [AExn e]
           | _ \<Rightarrow> logging ERROR ''Error inserting departments: {e}'' [AExn e]))"

definition insert_dept_managers :: "env \<Rightarrow> doc list \<Rightarrow> unit m" where
  "insert_dept_managers world dept_managers =
     (if dept_managers = [] then logging WARNING ''No dept_manager records to insert.'' []
      else
        m_try
          (m_bind (call world (InsertMany ''dept_manager'' dept_managers)) (\<lambda>_.
           logging INFO ''Inserted {len(result.inserted_ids)} dept_manager records.''
             [AInt (int (length dept_managers))]))
          (\<lambda>e. case e of
             BulkWriteError details \<Rightarrow>
               logging ERROR ''Bulk write error inserting dept_manager: {bwe.details}'' [AExn e]
           | _ \<Rightarrow> logging ERROR ''Error inserting dept_manager: {e}'' [AExn e]))"

definition MongoDBLoader_close :: "env \<Rightarrow> unit m" where
  "MongoDBLoader_close world =
     m_bind (call world MongoClose) (\<lambda>_. logging INFO ''Closed MongoDB connection.'' [])"

section \<open>pipeline.py: \<open>ETLPipeline\<close>\<close>

record extracted =
  employees_data :: "row list"
  titles_data :: "row list"
  salaries_data :: "row list"
  dept_emp_data :: "row list"
  departments_data :: "row list"
  dept_manager_data :: "row list"

record transformed =
  employees_out :: "doc list"
  departments_out :: "doc list"
  dept_manager_out :: "doc list"

definition etl_extract :: "env \<Rightarrow> extracted m" where
  "etl_extract world =
     m_finally
       (m_try
          (m_bind (connect_etl world) (\<lambda>_.
           m_bind (fetch_data world ''SELECT * FROM employees'') (\<lambda>employees_data.
           m_bind (fetch_data world ''SELECT * FROM titles'') (\<lambda>titles_data.
           m_bind (fetch_data world ''SELECT * FROM salaries'') (\<lambda>salaries_data.
           m_bind (fetch_data world ''SELECT * FROM dept_emp'') (\<lambda>dept_emp_data.
           m_bind (fetch_data world ''SELECT * FROM departments'') (\<lambda>departments_data.
           m_bind (fetch_data world ''SELECT * FROM dept_manager'') (\<lambda>dept_manager_data.
           m_return \<lparr>employees_data = employees_data, titles_data = titles_data,
                     salaries_data = salaries_data, dept_emp_data = dept_emp_data,
                     departments_data = departments_data,
                     dept_manager_data = dept_manager_data\<rparr>))))))))
          (\<lambda>e. m_bind (logging ERROR ''Error during extraction: {e}'' [AExn e])
             (\<lambda>_. m_raise e)))
       (close_etl world)"

text \<open>\<open>d[k]\<close> on a document, and the value of a document used as a dictionary key.\<close>

definition doc_getitem :: "doc \<Rightarrow> string \<Rightarrow> doc m" where
  "doc_getitem d k =
     (case d of
        Dict kvs \<Rightarrow> (case map_of kvs k of None \<Rightarrow> m_raise (KeyError k) | Some v \<Rightarrow> m_return v)
      | _ \<Rightarrow> m_raise TypeError)"

definition key_of :: "doc \<Rightarrow> pyval m" where
  "key_of d = (case d of Val v \<Rightarrow> m_return v | _ \<Rightarrow> m_raise TypeError)"

text \<open>\<open>d[field].append(x)\<close>, the document updated in place.\<close>

definition append_to :: "string \<Rightarrow> doc \<Rightarrow> doc \<Rightarrow> doc m" where
  "append_to field x d =
     m_bind (doc_getitem d field) (\<lambda>l.
       case l of
         Lst xs \<Rightarrow>
           (case d of
              Dict kvs \<Rightarrow> m_return (Dict (AList.update field (Lst (xs @ [x])) kvs))
            | _ \<Rightarrow> m_raise TypeError)
       | _ \<Rightarrow> m_raise AttributeError)"

text \<open>
  The first loop of \<open>transform\<close>: \<open>self.employees\<close> is a dictionary in insertion order;
  assigning to a key that is present replaces its value where it stands.
\<close>

fun index_employees :: "row list \<Rightarrow> (pyval \<times> doc) list \<Rightarrow> (pyval \<times> doc) list m" where
  "index_employees [] employees = m_return employees"
| "index_employees (emp # emps) employees =
     m_bind (transform_employee_etl emp) (\<lambda>transformed_emp.
     m_bind (m_bind (doc_getitem transformed_emp ''emp_no'') key_of) (\<lambda>emp_no.
     index_employees emps (AList.update emp_no transformed_emp employees)))"

text \<open>
  The loops over titles, salaries and department assignments: the transformed row is
  appended to the list \<open>field\<close> of its employee's document; a row of an unknown
  employee is logged as a warning and left out.
\<close>

fun embed_rows ::
  "string \<Rightarrow> (row \<Rightarrow> doc m) \<Rightarrow> string \<Rightarrow> row list \<Rightarrow> (pyval \<times> doc) list \<Rightarrow>
   (pyval \<times> doc) list m" where
  "embed_rows field f msg [] employees = m_return employees"
| "embed_rows field f msg (r # rs) employees =
     (let emp_no = get r ''emp_no'' in
      case map_of employees emp_no of
        Some d \<Rightarrow>
          m_bind (f r) (\<lambda>x.
          m_bind (append_to field x d) (\<lambda>d'.
          embed_rows field f msg rs (AList.update emp_no d' employees)))
      | None \<Rightarrow>
          m_bind (logging WARNING msg [AVal emp_no]) (\<lambda>_.
          embed_rows field f msg rs employees))"

definition etl_transform :: "extracted \<Rightarrow> transformed m" where
  "etl_transform data =
     m_try
       (m_bind (index_employees (employees_data data) []) (\<lambda>employees.
        m_bind (embed_rows ''titles'' transform_title
                  ''Employee emp_no {emp_no} not found for title record.''
                  (titles_data data) employees) (\<lambda>employees.
        m_bind (embed_rows ''salaries'' transform_salary
                  ''Employee emp_no {emp_no} not found for salary record.''
                  (salaries_data data) employees) (\<lambda>employees.
        m_bind (embed_rows ''departments'' transform_department_assignment
                  ''Employee emp_no {emp_no} not found for department assignment.''
                  (dept_emp_data data) employees) (\<lambda>employees.
        m_bind (for_append transform_department (departments_data data)) (\<lambda>departments.
        m_bind (for_append transform_dept_manager (dept_manager_data data)) (\<lambda>dept_managers.
        m_return \<lparr>employees_out = map snd employees, departments_out = departments,
                  dept_manager_out = dept_managers\<rparr>)))))))
       (\<lambda>e. m_bind (logging ERROR ''Error during transformation: {e}'' [AExn e])
          (\<lambda>_. m_raise e))"

definition etl_load :: "env \<Rightarrow> transformed \<Rightarrow> unit m" where
  "etl_load world transformed_data =
     m_finally
       (m_try
          (m_bind (insert_departments world (departments_out transformed_data)) (\<lambda>_.
           m_bind (insert_employees world (employees_out transformed_data)) (\<lambda>_.
           insert_dept_managers world (dept_manager_out transformed_data))))
          (\<lambda>e. m_bind (logging ERROR ''Error during loading: {e}'' [AExn e])
             (\<lambda>_. m_raise e)))
       (MongoDBLoader_close world)"

definition etl_run :: "env \<Rightarrow> unit m" where
  "etl_run world =
     m_bind (logging INFO ''ETL pipeline started.'' []) (\<lambda>_.
     m_try
       (m_bind (etl_extract world) (\<lambda>extracted_data.
        m_bind (etl_transform extracted_data) (\<lambda>transformed_data.
        m_bind (etl_load world transformed_data) (\<lambda>_.
        logging INFO ''ETL pipeline completed successfully.'' []))))
       (\<lambda>e. m_bind (logging ERROR ''ETL pipeline failed: {e}'' [AExn e])
          (\<lambda>_. m_raise (SystemExit 1))))"

text \<open>The script: the pipeline object is built (which opens the MongoDB client), then run.\<close>

definition etl_script :: "env \<Rightarrow> unit m" where
  "etl_script world = m_bind (MongoDBLoader_init world) (\<lambda>_. etl_run world)"

section \<open>Invariants of the employee index\<close>

text \<open>Every document of the index carries its key as \<open>emp_no\<close>.\<close>

definition keyed :: "(pyval \<times> doc) list \<Rightarrow> bool" where
  "keyed idx = (\<forall>k d. map_of idx k = Some d \<longrightarrow> doc_field d ''emp_no'' = Some (Val k))"

text \<open>A document with the three embedded lists of an employee document.\<close>

definition shaped :: "doc \<Rightarrow> bool" where
  "shaped d = (\<exists>kvs t sa de. d = Dict kvs \<and> map_of kvs ''titles'' = Some (Lst t)
                 \<and> map_of kvs ''salaries'' = Some (Lst sa)
                 \<and> map_of kvs ''departments'' = Some (Lst de))"

definition all_shaped :: "(pyval \<times> doc) list \<Rightarrow> bool" where
  "all_shaped idx = (\<forall>k d. map_of idx k = Some d \<longrightarrow> shaped d)"

section \<open>Sample rows\<close>

text \<open>Rows in the shape of the employees database, for evaluating the functions above.\<close>

definition sample_employee :: row where
  "sample_employee = [(''emp_no'', PInt 10001), (''birth_date'', PDate 1953 9 2),
     (''first_name'', PStr ''Georgi''), (''last_name'', PStr ''Facello''),
     (''gender'', PStr ''M''), (''hire_date'', PStr ''1986-06-26'')]"

definition sample_manager_1 :: row where
  "sample_manager_1 = [(''emp_no'', PInt 10001), (''dept_no'', PStr ''d001''),
     (''from_date'', PDate 1985 1 1), (''to_date'', PDate 1991 10 1)]"

definition sample_manager_2 :: row where
  "sample_manager_2 = [(''emp_no'', PInt 10001), (''dept_no'', PStr ''d002''),
     (''from_date'', PDate 1991 10 1), (''to_date'', PDate 9999 1 1)]"

definition sample_dept_emp_1 :: row where
  "sample_dept_emp_1 = [(''emp_no'', PInt 10001), (''dept_no'', PStr ''d005''),
     (''from_date'', PDate 1986 6 26), (''to_date'', PDate 9999 1 1)]"

definition sample_dept_emp_2 :: row where
  "sample_dept_emp_2 = [(''emp_no'', PInt 10001), (''dept_no'', PStr ''d999''),
     (''from_date'', PDate 1990 1 1), (''to_date'', PDate 1991 1 1)]"

definition sample_lookup :: "pyval \<rightharpoonup> row" where
  "sample_lookup = [PStr ''d005'' \<mapsto> [(''dept_no'', PStr ''d005''),
                                          (''dept_name'', PStr ''Development'')]]"

definition sample_bad_employee :: row where
  "sample_bad_employee = [(''emp_no'', PInt 10002), (''birth_date'', PStr ''not-a-date''),
     (''first_name'', PStr ''Bezalel''), (''last_name'', PStr ''Simmel''),
     (''gender'', PStr ''F''), (''hire_date'', PStr ''1985-11-21'')]"

definition sample_department :: row where
  "sample_department = [(''dept_no'', PStr ''d005''), (''dept_name'', PStr ''Development'')]"

definition sample_doc :: "int \<Rightarrow> doc" where
  "sample_doc n = Dict [(''emp_no'', Val (PInt n))]"

definition sample_employee_early :: row where
  "sample_employee_early = [(''emp_no'', PInt 10003), (''birth_date'', PStr ''1959-12-03''),
     (''first_name'', PStr ''Parto''), (''last_name'', PStr ''Bamford''),
     (''gender'', PStr ''M''), (''hire_date'', PStr ''1986-08-28'')]"

definition sample_employee_late :: row where
  "sample_employee_late = [(''emp_no'', PInt 10003), (''birth_date'', PStr ''1959-12-03''),
     (''first_name'', PStr ''Parto''), (''last_name'', PStr ''Bamford-Koblick''),
     (''gender'', PStr ''M''), (''hire_date'', PStr ''1986-08-28'')]"

text \<open>Servers: one that answers every call, one whose insert of a given batch fails, and one
  that hands out the sample rows and fails every insert.\<close>

definition world_ok :: env where
  "world_ok t ev = Inr []"

definition world_fails_on :: "doc list \<Rightarrow> env" where
  "world_fails_on bad t ev =
     (case ev of
        InsertMany name docs \<Rightarrow> if docs = bad then Inl (BulkWriteFailure [0]) else Inr []
      | _ \<Rightarrow> Inr [])"

definition world_sample_bulk_error :: env where
  "world_sample_bulk_error t ev =
     (case ev of
        Execute query \<Rightarrow>
          if query = ''SELECT * FROM employees'' then Inr [sample_employee]
          else if query = ''SELECT * FROM departments'' then Inr [sample_department]
          else Inr []
      | InsertMany name docs \<Rightarrow> Inl (BulkWriteFailure [0])
      | _ \<Rightarrow> Inr [])"

text \<open>Servers on which every query fails, and on which MongoDB refuses every write.\<close>

definition world_query_fails :: env where
  "world_query_fails t ev =
     (case ev of Execute query \<Rightarrow> Inl (DriverFailure ''gone'') | _ \<Rightarrow> Inr [])"

definition world_mongo_down :: env where
  "world_mongo_down t ev =
     (case ev of
        Execute query \<Rightarrow>
          if query = ''SELECT * FROM employees'' then Inr [sample_employee_early] else Inr []
      | DeleteMany name \<Rightarrow> Inl (DriverFailure ''unreachable'')
      | InsertMany name docs \<Rightarrow> Inl (DriverFailure ''unreachable'')
      | _ \<Rightarrow> Inr [])"

section \<open>Reasoning about computations\<close>

lemmas m_defs = m_return_def m_raise_def m_bind_def m_try_def m_finally_def logging_def
  call_def is_Exception_def

lemma m_bind_Inr:
  "m_bind c f s = (Inr y, s') \<longleftrightarrow> (\<exists>x s1. c s = (Inr x, s1) \<and> f x s1 = (Inr y, s'))"
  by (auto simp: m_bind_def split: prod.splits sum.splits)

lemma m_bind_Inr_D:
  assumes "m_bind c f s = (Inr y, s')"
  obtains x s1 where "c s = (Inr x, s1)" and "f x s1 = (Inr y, s')"
  using assms by (auto simp: m_bind_Inr)

lemma m_bind_cong_state: "c s = (Inr x, s1) \<Longrightarrow> m_bind c f s = f x s1"
  by (simp add: m_bind_def)

section \<open>Date conversion\<close>

lemma is_digit_cases:
  "is_digit c \<Longrightarrow> c = CHR ''0'' \<or> c = CHR ''1'' \<or> c = CHR ''2'' \<or> c = CHR ''3'' \<or> c = CHR ''4''
     \<or> c = CHR ''5'' \<or> c = CHR ''6'' \<or> c = CHR ''7'' \<or> c = CHR ''8'' \<or> c = CHR ''9''"
  by (auto simp: is_digit_def)

lemma match_month_two:
  assumes "is_digit e" "is_digit f" "1 \<le> 10 * digit_val e + digit_val f"
    "10 * digit_val e + digit_val f \<le> 12"
  shows "match_month (e # f # s) = Some (10 * digit_val e + digit_val f, s)"
  using assms(3,4) is_digit_cases[OF assms(1)] is_digit_cases[OF assms(2)]
  by (elim disjE) (simp_all add: digit_val_def)

lemma match_day_two:
  assumes "is_digit g" "is_digit h" "1 \<le> 10 * digit_val g + digit_val h"
    "10 * digit_val g + digit_val h \<le> 31"
  shows "match_day [g, h] = Some (10 * digit_val g + digit_val h, [])"
  using assms(3,4) is_digit_cases[OF assms(1)] is_digit_cases[OF assms(2)]
  by (elim disjE) (simp_all add: digit_val_def is_digit_def)

text \<open>On a string in \<open>YYYY-MM-DD\<close> form the parser returns midnight of the day it names.\<close>

lemma strptime_iso_date:
  assumes "iso_date str = Some (y, mo, dd)"
  shows "strptime (PStr str) s = (Inr (PDateTime y mo dd 0 0 0), s)"
proof -
  from assms obtain a b c d e f g h where
    str: "str = [a, b, c, d, CHR ''-'', e, f, CHR ''-'', g, h]"
    and dig: "is_digit a" "is_digit b" "is_digit c" "is_digit d"
      "is_digit e" "is_digit f" "is_digit g" "is_digit h"
    and y: "y = 1000 * digit_val a + 100 * digit_val b + 10 * digit_val c + digit_val d"
    and mo: "mo = 10 * digit_val e + digit_val f"
    and dd: "dd = 10 * digit_val g + digit_val h"
    and rng: "1 \<le> y" "1 \<le> mo" "mo \<le> 12" "1 \<le> dd" "dd \<le> days_in_month y mo"
    by (elim iso_date.elims) (auto simp: Let_def split: if_splits)
  have dim: "days_in_month y mo \<le> 31" by (simp add: days_in_month_def)
  have mm: "match_month [e, f, CHR ''-'', g, h] = Some (mo, [CHR ''-'', g, h])"
    unfolding mo by (rule match_month_two) (use dig mo rng in simp_all)
  have md: "match_day [g, h] = Some (dd, [])"
    unfolding dd by (rule match_day_two) (use dig dd rng dim in simp_all)
  have "match_ymd str = Some (y, mo, dd, [])"
    using dig y mm md by (simp add: str)
  then show ?thesis using rng by (simp add: strptime_def m_defs)
qed

lemma iso_date_nonempty: "iso_date str = Some r \<Longrightarrow> str \<noteq> []"
  by (cases str) simp_all

text \<open>The parser neither reads nor changes the state, and what it returns is a datetime.\<close>

lemma strptime_state: "strptime v s = (r, s') \<Longrightarrow> s' = s \<and> strptime v s0 = (r, s0)"
  by (auto simp: strptime_def m_defs split: pyval.splits option.splits prod.splits if_splits)

lemma strptime_is_date: "strptime v s = (Inr d, s') \<Longrightarrow> is_date d"
  by (auto simp: strptime_def m_defs is_date_def
      split: pyval.splits option.splits prod.splits if_splits)

lemma strptime_Exception: "strptime v s = (Inl e, s') \<Longrightarrow> e = TypeError \<or> e = ValueError"
  by (auto simp: strptime_def m_defs split: pyval.splits option.splits prod.splits if_splits)

lemma convert_date_is_date: "is_date v \<Longrightarrow> convert_date v s = (Inr v, s)"
  by (simp add: convert_date_def m_defs)

text \<open>A conversion that returns leaves the state as it was and returns a date.\<close>

lemma convert_date_Inr:
  assumes "convert_date v s = (Inr r, s')"
  shows "s' = s \<and> is_date r \<and> convert_date v s0 = (Inr r, s0)"
proof (cases "is_date v")
  case True
  with assms show ?thesis by (simp add: convert_date_is_date)
next
  case False
  obtain q s1 where st: "strptime v s = (q, s1)" by (cases "strptime v s")
  from strptime_Exception[of v s _ s1] st assms False have q: "q = Inr r" and "s1 = s'"
    by (cases q; auto simp: convert_date_def m_defs)+
  with st strptime_state[of v s "Inr r" s' s0] strptime_is_date[of v s r s'] False
  show ?thesis by (simp add: convert_date_def m_defs)
qed

text \<open>
  C3 (amended). \<open>convert_date\<close> of DB\_Migration/pipeline.py returns a value that is
  already a date or datetime unchanged, so that converting its own result again
  changes nothing; on a string in \<open>YYYY-MM-DD\<close> form it returns the datetime parsed
  from it, and so does \<open>transform_date\<close> of pipeline.py. On the null value
  \<open>convert_date\<close> logs an error and raises \<open>TypeError\<close>; \<open>transform_date\<close> returns null.
\<close>

theorem C3_date_normalization:
  "(is_date v \<longrightarrow> convert_date v s = (Inr v, s))
   \<and> (convert_date v s = (Inr r, s') \<longrightarrow> convert_date r s' = (Inr r, s'))
   \<and> (iso_date str = Some (y, mo, dd) \<longrightarrow>
         convert_date (PStr str) s = (Inr (PDateTime y mo dd 0 0 0), s)
         \<and> transform_date (PStr str) s = (Inr (PDateTime y mo dd 0 0 0), s))
   \<and> convert_date PNone s =
         (Inl TypeError,
          s\<lparr>trace := trace s @ [Log ERROR ''Date conversion error for value %s: %s''
                                  [AVal PNone, AExn TypeError]]\<rparr>)
   \<and> transform_date PNone s = (Inr PNone, s)"
proof (intro conjI impI)
  assume "is_date v"
  then show "convert_date v s = (Inr v, s)" by (rule convert_date_is_date)
next
  assume "convert_date v s = (Inr r, s')"
  then have "is_date r" using convert_date_Inr by blast
  then show "convert_date r s' = (Inr r, s')" by (rule convert_date_is_date)
next
  assume iso: "iso_date str = Some (y, mo, dd)"
  show "convert_date (PStr str) s = (Inr (PDateTime y mo dd 0 0 0), s)"
    by (simp add: convert_date_def is_date_def m_try_def strptime_iso_date[OF iso])
  show "transform_date (PStr str) s = (Inr (PDateTime y mo dd 0 0 0), s)"
    using iso_date_nonempty[OF iso]
    by (simp add: transform_date_def m_try_def strptime_iso_date[OF iso])
next
  show "convert_date PNone s =
         (Inl TypeError,
          s\<lparr>trace := trace s @ [Log ERROR ''Date conversion error for value %s: %s''
                                  [AVal PNone, AExn TypeError]]\<rparr>)"
    by (simp add: convert_date_def m_defs emit_def is_date_def strptime_def)
next
  show "transform_date PNone s = (Inr PNone, s)"
    by (simp add: transform_date_def m_defs)
qed

theorem C3_date_normalization_witness:
  "is_date (PDate 1990 1 1)
   \<and> convert_date (PDate 1990 1 1) init_state = (Inr (PDate 1990 1 1), init_state)
   \<and> iso_date ''1999-12-31'' = Some (1999, 12, 31)
   \<and> convert_date (PStr ''1999-12-31'') init_state
       = (Inr (PDateTime 1999 12 31 0 0 0), init_state)
   \<and> transform_date (PStr ''1999-12-31'') init_state
       = (Inr (PDateTime 1999 12 31 0 0 0), init_state)
   \<and> transform_date PNone init_state = (Inr PNone, init_state)"
  using C3_date_normalization[where v = "PDate 1990 1 1" and s = init_state
      and r = "PDate 1990 1 1" and s' = init_state and str = "''1999-12-31''"
      and y = 1999 and mo = 12 and dd = 31]
  by (simp add: is_date_def is_digit_def digit_val_def days_in_month_def is_leap_def)

text \<open>
  C3 as stated fails: on the null value \<open>convert_date\<close> raises \<open>TypeError\<close> instead of
  returning null, and \<open>transform_date\<close> turns a value that is already a date into null.
\<close>

theorem C3_counterexample:
  "fst (convert_date PNone init_state) = Inl TypeError
   \<and> fst (transform_date (PDate 1990 1 1) init_state) = Inr PNone"
  by (simp add: convert_date_def transform_date_def m_defs is_date_def strptime_def)

section \<open>Transforming one employee\<close>


lemma getitem_Inr: "getitem r k s = (Inr v, s') \<longleftrightarrow> map_of r k = Some v \<and> s' = s"
  by (auto simp: getitem_def m_defs split: option.splits)

lemma for_append_Inr:
  "for_append f xs s = (Inr ys, s') \<Longrightarrow>
     length ys = length xs \<and> (\<forall>i<length xs. \<exists>s1 s2. f (xs ! i) s1 = (Inr (ys ! i), s2))"
proof (induction xs arbitrary: ys s)
  case Nil
  then show ?case by (simp add: m_return_def)
next
  case (Cons x xs)
  from Cons.prems obtain y s1 ys' where
    fx: "f x s = (Inr y, s1)" and rest: "for_append f xs s1 = (Inr ys', s')" and ys: "ys = y # ys'"
    by (auto simp: m_bind_Inr m_return_def)
  from Cons.IH[OF rest] have len: "length ys' = length xs"
    and each: "\<forall>i<length xs. \<exists>s1 s2. f (xs ! i) s1 = (Inr (ys' ! i), s2)" by auto
  show ?case
  proof (intro conjI allI impI)
    show "length ys = length (x # xs)" using len ys by simp
  next
    fix i assume "i < length (x # xs)"
    then show "\<exists>s1 s2. f ((x # xs) ! i) s1 = (Inr (ys ! i), s2)"
      using fx each ys by (cases i) auto
  qed
qed

lemma m_try_reraise_Inr:
  "m_try c (\<lambda>exc. m_bind (logging l msg (args exc)) (\<lambda>_. m_raise exc)) s = (Inr d, s')
     \<Longrightarrow> c s = (Inr d, s')"
  by (auto simp: m_defs split: prod.splits sum.splits if_splits)

lemma transform_employee_Inr:
  assumes "transform_employee employee dept_emps dept_managers salaries titles lookup s = (Inr d, s')"
  shows "\<exists>emp_no b birth_date first_name last_name gender h hire_date departments sals tits
            management s1 s2 s3.
     map_of employee ''emp_no'' = Some emp_no
   \<and> map_of employee ''birth_date'' = Some b \<and> convert_date b s = (Inr birth_date, s)
   \<and> map_of employee ''first_name'' = Some first_name
   \<and> map_of employee ''last_name'' = Some last_name
   \<and> map_of employee ''gender'' = Some gender
   \<and> map_of employee ''hire_date'' = Some h \<and> convert_date h s = (Inr hire_date, s)
   \<and> for_append (department_entry lookup) dept_emps s = (Inr departments, s1)
   \<and> for_append salary_entry salaries s1 = (Inr sals, s2)
   \<and> for_append title_entry titles s2 = (Inr tits, s3)
   \<and> management_entry dept_managers s3 = (Inr management, s')
   \<and> d = Dict [(''emp_no'', Val emp_no), (''birth_date'', Val birth_date),
               (''first_name'', Val first_name), (''last_name'', Val last_name),
               (''gender'', Val gender), (''hire_date'', Val hire_date),
               (''departments'', Lst departments), (''salaries'', Lst sals),
               (''titles'', Lst tits), (''management'', management)]"
proof -
  from assms have body: "m_bind (getitem employee ''emp_no'') (\<lambda>emp_no.
        m_bind (m_bind (getitem employee ''birth_date'') convert_date) (\<lambda>birth_date.
        m_bind (getitem employee ''first_name'') (\<lambda>first_name.
        m_bind (getitem employee ''last_name'') (\<lambda>last_name.
        m_bind (getitem employee ''gender'') (\<lambda>gender.
        m_bind (m_bind (getitem employee ''hire_date'') convert_date) (\<lambda>hire_date.
        m_bind (for_append (department_entry lookup) dept_emps) (\<lambda>departments.
        m_bind (for_append salary_entry salaries) (\<lambda>sals.
        m_bind (for_append title_entry titles) (\<lambda>tits.
        m_bind (management_entry dept_managers) (\<lambda>management.
        m_return (Dict [(''emp_no'', Val emp_no), (''birth_date'', Val birth_date),
                        (''first_name'', Val first_name), (''last_name'', Val last_name),
                        (''gender'', Val gender), (''hire_date'', Val hire_date),
                        (''departments'', Lst departments), (''salaries'', Lst sals),
                        (''titles'', Lst tits), (''management'', management)]))))))))))) s
      = (Inr d, s')"
    unfolding transform_employee_def by (rule m_try_reraise_Inr)
  from body obtain emp_no b birth_date first_name last_name gender h hire_date departments
      sals tits management sa sb s1 s2 s3 where
    f1: "map_of employee ''emp_no'' = Some emp_no"
      "map_of employee ''birth_date'' = Some b"
      "map_of employee ''first_name'' = Some first_name"
      "map_of employee ''last_name'' = Some last_name"
      "map_of employee ''gender'' = Some gender"
      "map_of employee ''hire_date'' = Some h"
    and c1: "convert_date b s = (Inr birth_date, sa)"
    and c2: "convert_date h sa = (Inr hire_date, sb)"
    and f2: "for_append (department_entry lookup) dept_emps sb = (Inr departments, s1)"
      "for_append salary_entry salaries s1 = (Inr sals, s2)"
      "for_append title_entry titles s2 = (Inr tits, s3)"
      "management_entry dept_managers s3 = (Inr management, s')"
    and d: "d = Dict [(''emp_no'', Val emp_no), (''birth_date'', Val birth_date),
               (''first_name'', Val first_name), (''last_name'', Val last_name),
               (''gender'', Val gender), (''hire_date'', Val hire_date),
               (''departments'', Lst departments), (''salaries'', Lst sals),
               (''titles'', Lst tits), (''management'', management)]"
    by (elim m_bind_Inr_D) (auto simp: getitem_Inr m_return_def)
  from c1 have sa: "sa = s" using convert_date_Inr by blast
  from c2 have sb: "sb = s" using convert_date_Inr sa by blast
  from f1 c1 c2 f2 d show ?thesis unfolding sa sb by blast
qed


lemma management_entry_Inr:
  assumes "management_entry (mgr # mgrs) s = (Inr management, s')"
  shows "\<exists>dept_no f t from_date to_date.
           map_of mgr ''dept_no'' = Some dept_no \<and> map_of mgr ''from_date'' = Some f
         \<and> map_of mgr ''to_date'' = Some t
         \<and> convert_date f s0 = (Inr from_date, s0) \<and> convert_date t s0 = (Inr to_date, s0)
         \<and> management = Dict [(''dept_no'', Val dept_no), (''from_date'', Val from_date),
                               (''to_date'', Val to_date)]"
proof -
  from assms obtain dept_no f t from_date to_date sa sb where
    f1: "map_of mgr ''dept_no'' = Some dept_no" "map_of mgr ''from_date'' = Some f"
      "map_of mgr ''to_date'' = Some t"
    and c1: "convert_date f s = (Inr from_date, sa)"
    and c2: "convert_date t sa = (Inr to_date, sb)"
    and m: "management = Dict [(''dept_no'', Val dept_no), (''from_date'', Val from_date),
                               (''to_date'', Val to_date)]"
    unfolding management_entry_def list.case
    by (elim m_bind_Inr_D) (auto simp: getitem_Inr m_return_def)
  from c1 have "convert_date f s0 = (Inr from_date, s0)" using convert_date_Inr by blast
  moreover from c2 have "convert_date t s0 = (Inr to_date, s0)" using convert_date_Inr by blast
  ultimately show ?thesis using f1 m by blast
qed

text \<open>After \<open>by_emp\<close>, the rows of an employee are its rows of the table, in source order.\<close>

lemma by_emp_rows:
  assumes "by_emp recs idx s = (Inr idx', s')"
  shows "get_rows idx' emp_no
       = get_rows idx emp_no @ filter (\<lambda>r. map_of r ''emp_no'' = Some emp_no) recs"
  using assms
proof (induction recs arbitrary: idx s)
  case Nil
  then show ?case by (simp add: m_return_def)
next
  case (Cons rec recs)
  from Cons.prems obtain k where k: "map_of rec ''emp_no'' = Some k"
    and rest: "by_emp recs
                 (idx(k \<mapsto> (case idx k of None \<Rightarrow> [] | Some rows \<Rightarrow> rows) @ [rec])) s
               = (Inr idx', s')"
    by (auto simp: m_bind_Inr getitem_Inr)
  from Cons.IH[OF rest] k show ?case by (auto simp: get_rows_def)
qed

text \<open>
  C5. When \<open>transform_employee\<close> is given two or more \<open>dept_manager\<close> rows, the rows
  after the first are ignored (the call equals the call with the first row alone), and
  the \<open>management\<close> field of the document it returns is the mapping of the first row:
  its \<open>dept_no\<close> and its two dates, converted. The rows it is given are those the index
  of \<open>main\<close> holds for the employee: the employee's rows of the table, in source order.
\<close>

theorem C5_first_manager_only:
  "transform_employee employee dept_emps (mgr # mgr' # mgrs) salaries titles lookup
     = transform_employee employee dept_emps [mgr] salaries titles lookup
   \<and> (transform_employee employee dept_emps (mgr # mgr' # mgrs) salaries titles lookup s
        = (Inr d, s') \<longrightarrow>
      (\<exists>dept_no f t from_date to_date.
           map_of mgr ''dept_no'' = Some dept_no \<and> map_of mgr ''from_date'' = Some f
         \<and> map_of mgr ''to_date'' = Some t
         \<and> convert_date f s = (Inr from_date, s) \<and> convert_date t s = (Inr to_date, s)
         \<and> doc_field d ''management''
              = Some (Dict [(''dept_no'', Val dept_no), (''from_date'', Val from_date),
                            (''to_date'', Val to_date)])))
   \<and> (by_emp recs Map.empty s0 = (Inr dept_manager_by_emp, s1) \<longrightarrow>
        get_rows dept_manager_by_emp emp_no
          = filter (\<lambda>r. map_of r ''emp_no'' = Some emp_no) recs)"
proof (intro conjI impI)
  show "transform_employee employee dept_emps (mgr # mgr' # mgrs) salaries titles lookup
     = transform_employee employee dept_emps [mgr] salaries titles lookup"
    by (simp add: transform_employee_def management_entry_def)
next
  assume "by_emp recs Map.empty s0 = (Inr dept_manager_by_emp, s1)"
  from by_emp_rows[OF this, of emp_no]
  show "get_rows dept_manager_by_emp emp_no
          = filter (\<lambda>r. map_of r ''emp_no'' = Some emp_no) recs"
    by (simp add: get_rows_def)
next
  assume "transform_employee employee dept_emps (mgr # mgr' # mgrs) salaries titles lookup s
        = (Inr d, s')"
  from transform_employee_Inr[OF this] obtain management s3 where
    m: "management_entry (mgr # mgr' # mgrs) s3 = (Inr management, s')"
    and d: "doc_field d ''management'' = Some management"
    by (auto simp: doc_field_def)
  from management_entry_Inr[OF m, of s] d
  show "\<exists>dept_no f t from_date to_date.
           map_of mgr ''dept_no'' = Some dept_no \<and> map_of mgr ''from_date'' = Some f
         \<and> map_of mgr ''to_date'' = Some t
         \<and> convert_date f s = (Inr from_date, s) \<and> convert_date t s = (Inr to_date, s)
         \<and> doc_field d ''management''
              = Some (Dict [(''dept_no'', Val dept_no), (''from_date'', Val from_date),
                            (''to_date'', Val to_date)])"
    by auto
qed

lemmas eval_defs = transform_employee_def management_entry_def department_entry_def
  salary_entry_def title_entry_def convert_date_def getitem_def get_default_def is_date_def
  strptime_def is_digit_def digit_val_def days_in_month_def is_leap_def doc_field_def
  init_state_def emit_def get_rows_def

theorem C5_first_manager_only_witness:
  "transform_employee sample_employee [] [sample_manager_1, sample_manager_2] [] [] Map.empty
      init_state
     = (Inr (Dict [(''emp_no'', Val (PInt 10001)), (''birth_date'', Val (PDate 1953 9 2)),
               (''first_name'', Val (PStr ''Georgi'')), (''last_name'', Val (PStr ''Facello'')),
               (''gender'', Val (PStr ''M'')), (''hire_date'', Val (PDateTime 1986 6 26 0 0 0)),
               (''departments'', Lst []), (''salaries'', Lst []), (''titles'', Lst []),
               (''management'', Dict [(''dept_no'', Val (PStr ''d001'')),
                  (''from_date'', Val (PDate 1985 1 1)), (''to_date'', Val (PDate 1991 10 1))])]),
        init_state)
   \<and> transform_employee sample_employee [] [sample_manager_1, sample_manager_2] [] [] Map.empty
     = transform_employee sample_employee [] [sample_manager_1] [] [] Map.empty
   \<and> by_emp [sample_manager_1, sample_manager_2] Map.empty init_state
     = (Inr [PInt 10001 \<mapsto> [sample_manager_1, sample_manager_2]], init_state)
   \<and> get_rows [PInt 10001 \<mapsto> [sample_manager_1, sample_manager_2]] (PInt 10001)
     = [sample_manager_1, sample_manager_2]"
  using C5_first_manager_only[where employee = sample_employee and dept_emps = "[]"
      and recs = "[sample_manager_1, sample_manager_2]" and ?s0.0 = init_state
      and ?s1.0 = init_state and emp_no = "PInt 10001"
      and dept_manager_by_emp = "[PInt 10001 \<mapsto> [sample_manager_1, sample_manager_2]]"
      and mgr = sample_manager_1 and mgr' = sample_manager_2 and mgrs = "[]"
      and salaries = "[]" and titles = "[]" and lookup = Map.empty and s = init_state
      and s' = init_state
      and d = "Dict [(''emp_no'', Val (PInt 10001)), (''birth_date'', Val (PDate 1953 9 2)),
               (''first_name'', Val (PStr ''Georgi'')), (''last_name'', Val (PStr ''Facello'')),
               (''gender'', Val (PStr ''M'')), (''hire_date'', Val (PDateTime 1986 6 26 0 0 0)),
               (''departments'', Lst []), (''salaries'', Lst []), (''titles'', Lst []),
               (''management'', Dict [(''dept_no'', Val (PStr ''d001'')),
                  (''from_date'', Val (PDate 1985 1 1)), (''to_date'', Val (PDate 1991 10 1))])]"]
  by (simp add: eval_defs m_defs sample_employee_def sample_manager_1_def sample_manager_2_def)


lemma department_entry_unknown:
  assumes "department_entry lookup de s = (Inr e, s')"
    and "map_of de ''dept_no'' = Some dept_no" and "lookup dept_no = None"
  shows "doc_field e ''dept_no'' = Some (Val dept_no)
       \<and> doc_field e ''dept_name'' = Some (Val (PStr ''Unknown''))"
  using assms unfolding department_entry_def Let_def
  by (elim m_bind_Inr_D) (auto simp: getitem_Inr getitem_def m_return_def doc_field_def)

text \<open>
  C6. In the document \<open>transform_employee\<close> returns, the \<open>departments\<close> list has one
  entry per \<open>dept_emp\<close> row, in order; the entry of a row whose \<open>dept_no\<close> is not in the
  department lookup is there like the others, with that \<open>dept_no\<close> and the
  \<open>dept_name\<close> \<open>Unknown\<close>.
\<close>

theorem C6_unknown_department:
  assumes "transform_employee employee dept_emps dept_managers salaries titles lookup s
             = (Inr d, s')"
  shows "\<exists>entries. doc_field d ''departments'' = Some (Lst entries)
       \<and> length entries = length dept_emps
       \<and> (\<forall>i dept_no. i < length dept_emps
              \<and> map_of (dept_emps ! i) ''dept_no'' = Some dept_no \<and> lookup dept_no = None
            \<longrightarrow> doc_field (entries ! i) ''dept_no'' = Some (Val dept_no)
              \<and> doc_field (entries ! i) ''dept_name'' = Some (Val (PStr ''Unknown'')))"
proof -
  from transform_employee_Inr[OF assms] obtain entries s1 where
    fa: "for_append (department_entry lookup) dept_emps s = (Inr entries, s1)"
    and d: "doc_field d ''departments'' = Some (Lst entries)"
    by (auto simp: doc_field_def)
  from for_append_Inr[OF fa] have len: "length entries = length dept_emps"
    and each: "\<forall>i<length dept_emps. \<exists>sa sb.
                 department_entry lookup (dept_emps ! i) sa = (Inr (entries ! i), sb)"
    by auto
  have "doc_field (entries ! i) ''dept_no'' = Some (Val dept_no)
      \<and> doc_field (entries ! i) ''dept_name'' = Some (Val (PStr ''Unknown''))"
    if "i < length dept_emps" "map_of (dept_emps ! i) ''dept_no'' = Some dept_no"
      "lookup dept_no = None" for i dept_no
  proof -
    from each that(1) obtain sa sb where
      "department_entry lookup (dept_emps ! i) sa = (Inr (entries ! i), sb)" by blast
    from department_entry_unknown[OF this that(2,3)] show ?thesis .
  qed
  with d len show ?thesis by blast
qed

theorem C6_unknown_department_witness:
  "transform_employee sample_employee [sample_dept_emp_1, sample_dept_emp_2] [] [] []
      sample_lookup init_state
     = (Inr (Dict [(''emp_no'', Val (PInt 10001)), (''birth_date'', Val (PDate 1953 9 2)),
               (''first_name'', Val (PStr ''Georgi'')), (''last_name'', Val (PStr ''Facello'')),
               (''gender'', Val (PStr ''M'')), (''hire_date'', Val (PDateTime 1986 6 26 0 0 0)),
               (''departments'', Lst [
                  Dict [(''dept_no'', Val (PStr ''d005'')), (''dept_name'', Val (PStr ''Development'')),
                        (''from_date'', Val (PDate 1986 6 26)), (''to_date'', Val (PDate 9999 1 1))],
                  Dict [(''dept_no'', Val (PStr ''d999'')), (''dept_name'', Val (PStr ''Unknown'')),
                        (''from_date'', Val (PDate 1990 1 1)), (''to_date'', Val (PDate 1991 1 1))]]),
               (''salaries'', Lst []), (''titles'', Lst []), (''management'', Val PNone)]),
        init_state)
   \<and> map_of ([sample_dept_emp_1, sample_dept_emp_2] ! 1) ''dept_no'' = Some (PStr ''d999'')
   \<and> sample_lookup (PStr ''d999'') = None"
  using C6_unknown_department[where employee = sample_employee
      and dept_emps = "[sample_dept_emp_1, sample_dept_emp_2]" and dept_managers = "[]"
      and salaries = "[]" and titles = "[]" and lookup = sample_lookup and s = init_state
      and s' = init_state
      and d = "Dict [(''emp_no'', Val (PInt 10001)), (''birth_date'', Val (PDate 1953 9 2)),
               (''first_name'', Val (PStr ''Georgi'')), (''last_name'', Val (PStr ''Facello'')),
               (''gender'', Val (PStr ''M'')), (''hire_date'', Val (PDateTime 1986 6 26 0 0 0)),
               (''departments'', Lst [
                  Dict [(''dept_no'', Val (PStr ''d005'')), (''dept_name'', Val (PStr ''Development'')),
                        (''from_date'', Val (PDate 1986 6 26)), (''to_date'', Val (PDate 9999 1 1))],
                  Dict [(''dept_no'', Val (PStr ''d999'')), (''dept_name'', Val (PStr ''Unknown'')),
                        (''from_date'', Val (PDate 1990 1 1)), (''to_date'', Val (PDate 1991 1 1))]]),
               (''salaries'', Lst []), (''titles'', Lst []), (''management'', Val PNone)]"]
  by (simp add: eval_defs m_defs sample_employee_def sample_dept_emp_1_def
      sample_dept_emp_2_def sample_lookup_def)

text \<open>
  C8. For an employee row whose \<open>emp_no\<close> has no rows in the four indexes (and whose own
  six columns are there, with dates that convert), the transformation returns without
  raising or logging, and the loop of \<open>main\<close> appends a document whose \<open>departments\<close>,
  \<open>salaries\<close> and \<open>titles\<close> are empty lists and whose \<open>management\<close> is null.
\<close>

theorem C8_no_children:
  assumes "map_of emp ''emp_no'' = Some emp_no"
    and "get_rows dept_emp_by_emp emp_no = []" and "get_rows dept_manager_by_emp emp_no = []"
    and "get_rows salaries_by_emp emp_no = []" and "get_rows titles_by_emp emp_no = []"
    and "map_of emp ''birth_date'' = Some b" and "convert_date b s = (Inr birth_date, s)"
    and "map_of emp ''first_name'' = Some first_name"
    and "map_of emp ''last_name'' = Some last_name"
    and "map_of emp ''gender'' = Some gender"
    and "map_of emp ''hire_date'' = Some h" and "convert_date h s = (Inr hire_date, s)"
  shows "transform_employee emp (get_rows dept_emp_by_emp emp_no)
           (get_rows dept_manager_by_emp emp_no) (get_rows salaries_by_emp emp_no)
           (get_rows titles_by_emp emp_no) lookup s
       = (Inr (Dict [(''emp_no'', Val emp_no), (''birth_date'', Val birth_date),
                     (''first_name'', Val first_name), (''last_name'', Val last_name),
                     (''gender'', Val gender), (''hire_date'', Val hire_date),
                     (''departments'', Lst []), (''salaries'', Lst []),
                     (''titles'', Lst []), (''management'', Val PNone)]), s)
     \<and> employee_loop dept_emp_by_emp dept_manager_by_emp salaries_by_emp titles_by_emp
           lookup (emp # emps) docs s
       = employee_loop dept_emp_by_emp dept_manager_by_emp salaries_by_emp titles_by_emp
           lookup emps
           (docs @ [Dict [(''emp_no'', Val emp_no), (''birth_date'', Val birth_date),
                          (''first_name'', Val first_name), (''last_name'', Val last_name),
                          (''gender'', Val gender), (''hire_date'', Val hire_date),
                          (''departments'', Lst []), (''salaries'', Lst []),
                          (''titles'', Lst []), (''management'', Val PNone)]]) s"
proof -
  have t: "transform_employee emp [] [] [] [] lookup s
      = (Inr (Dict [(''emp_no'', Val emp_no), (''birth_date'', Val birth_date),
                    (''first_name'', Val first_name), (''last_name'', Val last_name),
                    (''gender'', Val gender), (''hire_date'', Val hire_date),
                    (''departments'', Lst []), (''salaries'', Lst []),
                    (''titles'', Lst []), (''management'', Val PNone)]), s)"
    using assms
    by (simp add: transform_employee_def management_entry_def getitem_def m_try_def
        m_bind_def m_return_def)
  then show ?thesis
    using assms(1-5)
    by (simp add: getitem_def m_try_def m_bind_def m_return_def)
qed

theorem C8_no_children_witness:
  "map_of sample_employee ''emp_no'' = Some (PInt 10001)
   \<and> get_rows Map.empty (PInt 10001) = []
   \<and> convert_date (PDate 1953 9 2) init_state = (Inr (PDate 1953 9 2), init_state)
   \<and> convert_date (PStr ''1986-06-26'') init_state
        = (Inr (PDateTime 1986 6 26 0 0 0), init_state)
   \<and> employee_loop Map.empty Map.empty Map.empty Map.empty Map.empty [sample_employee] []
        init_state
       = (Inr [Dict [(''emp_no'', Val (PInt 10001)), (''birth_date'', Val (PDate 1953 9 2)),
                 (''first_name'', Val (PStr ''Georgi'')), (''last_name'', Val (PStr ''Facello'')),
                 (''gender'', Val (PStr ''M'')),
                 (''hire_date'', Val (PDateTime 1986 6 26 0 0 0)),
                 (''departments'', Lst []), (''salaries'', Lst []), (''titles'', Lst []),
                 (''management'', Val PNone)]], init_state)"
  using C8_no_children[where emp = sample_employee and emp_no = "PInt 10001"
      and dept_emp_by_emp = Map.empty and dept_manager_by_emp = Map.empty
      and salaries_by_emp = Map.empty and titles_by_emp = Map.empty
      and b = "PDate 1953 9 2" and birth_date = "PDate 1953 9 2"
      and first_name = "PStr ''Georgi''" and last_name = "PStr ''Facello''"
      and gender = "PStr ''M''" and h = "PStr ''1986-06-26''"
      and hire_date = "PDateTime 1986 6 26 0 0 0" and s = init_state
      and lookup = Map.empty and emps = "[]" and docs = "[]"]
  by (simp add: eval_defs m_defs sample_employee_def)

section \<open>The loop over the employees\<close>


lemma oE_return: "only_Exceptions (m_return x)"
  by (simp add: only_Exceptions_def m_return_def)

lemma oE_raise: "is_Exception e \<Longrightarrow> only_Exceptions (m_raise e)"
  by (simp add: only_Exceptions_def m_raise_def)

lemma oE_logging: "only_Exceptions (logging l msg args)"
  by (simp add: only_Exceptions_def logging_def)

lemma oE_bind: "only_Exceptions c \<Longrightarrow> (\<And>x. only_Exceptions (f x)) \<Longrightarrow> only_Exceptions (m_bind c f)"
  unfolding only_Exceptions_def m_bind_def
  by (auto split: prod.splits sum.splits)

lemma oE_try: "only_Exceptions c \<Longrightarrow> (\<And>e. is_Exception e \<Longrightarrow> only_Exceptions (h e)) \<Longrightarrow> only_Exceptions (m_try c h)"
  unfolding only_Exceptions_def m_try_def
  by (auto split: prod.splits sum.splits if_splits)

lemma oE_if: "only_Exceptions c \<Longrightarrow> only_Exceptions d \<Longrightarrow> only_Exceptions (if b then c else d)"
  by simp

lemma oE_for_append: "(\<And>x. only_Exceptions (f x)) \<Longrightarrow> only_Exceptions (for_append f xs)"
  by (induction xs) (auto intro!: oE_bind oE_return)

lemma oE_getitem: "only_Exceptions (getitem r k)"
  by (auto simp: getitem_def is_Exception_def intro: oE_return oE_raise split: option.splits)

lemma oE_strptime: "only_Exceptions (strptime v)"
  unfolding only_Exceptions_def
  by (auto simp: is_Exception_def dest!: strptime_Exception)

lemmas oE_intros = oE_bind oE_try oE_return oE_raise oE_logging oE_getitem oE_strptime
  oE_for_append oE_if

lemma oE_convert_date: "only_Exceptions (convert_date v)"
  unfolding convert_date_def by (intro oE_intros)

lemma oE_department_entry: "only_Exceptions (department_entry lookup de)"
  unfolding department_entry_def Let_def by (intro oE_intros oE_convert_date)

lemma oE_salary_entry: "only_Exceptions (salary_entry sal)"
  unfolding salary_entry_def by (intro oE_intros oE_convert_date)

lemma oE_title_entry: "only_Exceptions (title_entry tit)"
  unfolding title_entry_def by (intro oE_intros oE_convert_date)

lemma oE_management_entry: "only_Exceptions (management_entry mgrs)"
  unfolding management_entry_def by (cases mgrs) (auto intro!: oE_intros oE_convert_date)

lemma oE_transform_employee:
  "only_Exceptions (transform_employee employee dept_emps dept_managers salaries titles lookup)"
  unfolding transform_employee_def
  by (intro oE_intros oE_convert_date oE_department_entry oE_salary_entry oE_title_entry
      oE_management_entry)

lemma transform_employee_Exception:
  "transform_employee employee dept_emps dept_managers salaries titles lookup s = (Inl e, s')
     \<Longrightarrow> is_Exception e"
  using oE_transform_employee unfolding only_Exceptions_def by blast


lemma employee_loop_step:
  assumes "map_of emp ''emp_no'' = Some emp_no"
  shows "employee_loop i1 i2 i3 i4 lookup (emp # emps) docs s =
     (case transform_employee emp (get_rows i1 emp_no) (get_rows i2 emp_no)
             (get_rows i3 emp_no) (get_rows i4 emp_no) lookup s of
        (Inr d, s1) \<Rightarrow> employee_loop i1 i2 i3 i4 lookup emps (docs @ [d]) s1
      | (Inl exc, s1) \<Rightarrow>
          employee_loop i1 i2 i3 i4 lookup emps docs
            (s1\<lparr>trace := trace s1 @
               [Log ERROR ''Skipping employee %s due to transformation error.''
                  [AVal emp_no]]\<rparr>))"
  using assms transform_employee_Exception[of emp "get_rows i1 emp_no" "get_rows i2 emp_no"
      "get_rows i3 emp_no" "get_rows i4 emp_no" lookup s]
  by (auto simp: getitem_def m_defs emit_def split: prod.splits sum.splits)

lemma employee_loop_returns:
  assumes "\<forall>emp\<in>set emps. map_of emp ''emp_no'' \<noteq> None"
  shows "\<exists>ds s'. employee_loop i1 i2 i3 i4 lookup emps docs s = (Inr (docs @ ds), s')"
  using assms
proof (induction emps arbitrary: docs s)
  case Nil
  then show ?case by (simp add: m_return_def)
next
  case (Cons emp emps)
  then obtain emp_no where e: "map_of emp ''emp_no'' = Some emp_no" by auto
  from Cons.prems have rest: "\<forall>emp\<in>set emps. map_of emp ''emp_no'' \<noteq> None" by simp
  obtain r s1 where t: "transform_employee emp (get_rows i1 emp_no) (get_rows i2 emp_no)
             (get_rows i3 emp_no) (get_rows i4 emp_no) lookup s = (r, s1)"
    by (cases "transform_employee emp (get_rows i1 emp_no) (get_rows i2 emp_no)
             (get_rows i3 emp_no) (get_rows i4 emp_no) lookup s")
  show ?case
  proof (cases r)
    case (Inl exc)
    from Cons.IH[OF rest, of docs] show ?thesis
      unfolding employee_loop_step[OF e] t Inl by simp
  next
    case (Inr d)
    from Cons.IH[OF rest, of "docs @ [d]" s1] show ?thesis
      unfolding employee_loop_step[OF e] t Inr by auto
  qed
qed

lemma transform_date_returns: "\<exists>r s'. transform_date v s = (Inr r, s')"
proof -
  obtain q s1 where c: "(if truthy v then strptime v else m_return PNone) s = (q, s1)"
    by (cases "(if truthy v then strptime v else m_return PNone) s")
  show ?thesis
  proof (cases q)
    case (Inl e)
    with c have "is_Exception e"
      by (auto simp: m_return_def is_Exception_def split: if_splits dest!: strptime_Exception)
    with c Inl show ?thesis
      by (simp add: transform_date_def m_try_def m_bind_def logging_def m_return_def)
  next
    case (Inr r)
    with c show ?thesis by (simp add: transform_date_def m_try_def)
  qed
qed

lemma transform_employee_etl_returns: "\<exists>d s'. transform_employee_etl employee_row s = (Inr d, s')"
proof -
  obtain b s1 where b: "transform_date (get employee_row ''birth_date'') s = (Inr b, s1)"
    using transform_date_returns by blast
  obtain h s2 where h: "transform_date (get employee_row ''hire_date'') s1 = (Inr h, s2)"
    using transform_date_returns by blast
  show ?thesis by (simp add: transform_employee_etl_def m_bind_def b h m_return_def)
qed

lemma transform_date_malformed:
  assumes "strptime (PStr str) s = (Inl e, s1)" and "str \<noteq> []"
  shows "transform_date (PStr str) s =
           (Inr PNone, s\<lparr>trace := trace s @ [Log ERROR ''Error converting date {date_str}: {e}''
                                                [AVal (PStr str), AExn e]]\<rparr>)"
proof -
  from strptime_state[OF assms(1)] have "s1 = s" by simp
  moreover from strptime_Exception[OF assms(1)] have "is_Exception e"
    by (auto simp: is_Exception_def)
  ultimately show ?thesis using assms
    by (simp add: transform_date_def m_try_def m_bind_def logging_def emit_def m_return_def)
qed

text \<open>
  C4 (amended). In DB\_Migration/pipeline.py, when the transformation of an employee row
  raises (a date that does not parse, for one), the loop of \<open>main\<close> leaves the documents
  collected so far as they are, logs \<open>Skipping employee\<close> at level \<open>ERROR\<close> and goes on
  with the remaining rows; as long as every row has its \<open>emp_no\<close> column the loop returns
  without raising. In pipeline.py a date string that does not parse raises nothing:
  \<open>transform_date\<close> logs an error and returns null, and \<open>transform_employee\<close> returns a
  document for every row.
\<close>

theorem C4_failed_employee_skipped:
  "(map_of emp ''emp_no'' = Some emp_no
      \<and> transform_employee emp (get_rows dept_emp_by_emp emp_no)
            (get_rows dept_manager_by_emp emp_no) (get_rows salaries_by_emp emp_no)
            (get_rows titles_by_emp emp_no) lookup s = (Inl exc, s1)
    \<longrightarrow> employee_loop dept_emp_by_emp dept_manager_by_emp salaries_by_emp titles_by_emp
            lookup (emp # emps) docs s
        = employee_loop dept_emp_by_emp dept_manager_by_emp salaries_by_emp titles_by_emp
            lookup emps docs
            (s1\<lparr>trace := trace s1 @
               [Log ERROR ''Skipping employee %s due to transformation error.''
                  [AVal emp_no]]\<rparr>))
   \<and> ((\<forall>r\<in>set rows. map_of r ''emp_no'' \<noteq> None)
    \<longrightarrow> (\<exists>ds s'. employee_loop dept_emp_by_emp dept_manager_by_emp salaries_by_emp
                    titles_by_emp lookup rows docs s = (Inr (docs @ ds), s')))
   \<and> (strptime (PStr str) s = (Inl e, s) \<and> str \<noteq> []
    \<longrightarrow> transform_date (PStr str) s =
           (Inr PNone, s\<lparr>trace := trace s @ [Log ERROR ''Error converting date {date_str}: {e}''
                                                [AVal (PStr str), AExn e]]\<rparr>))
   \<and> (\<exists>d s'. transform_employee_etl employee_row s = (Inr d, s'))"
proof (intro conjI impI)
  assume a: "map_of emp ''emp_no'' = Some emp_no
      \<and> transform_employee emp (get_rows dept_emp_by_emp emp_no)
            (get_rows dept_manager_by_emp emp_no) (get_rows salaries_by_emp emp_no)
            (get_rows titles_by_emp emp_no) lookup s = (Inl exc, s1)"
  then have e: "map_of emp ''emp_no'' = Some emp_no"
    and t: "transform_employee emp (get_rows dept_emp_by_emp emp_no)
            (get_rows dept_manager_by_emp emp_no) (get_rows salaries_by_emp emp_no)
            (get_rows titles_by_emp emp_no) lookup s = (Inl exc, s1)"
    by simp_all
  show "employee_loop dept_emp_by_emp dept_manager_by_emp salaries_by_emp titles_by_emp
            lookup (emp # emps) docs s
        = employee_loop dept_emp_by_emp dept_manager_by_emp salaries_by_emp titles_by_emp
            lookup emps docs
            (s1\<lparr>trace := trace s1 @
               [Log ERROR ''Skipping employee %s due to transformation error.''
                  [AVal emp_no]]\<rparr>)"
    unfolding employee_loop_step[OF e] t by simp
next
  assume "\<forall>r\<in>set rows. map_of r ''emp_no'' \<noteq> None"
  then show "\<exists>ds s'. employee_loop dept_emp_by_emp dept_manager_by_emp salaries_by_emp
                    titles_by_emp lookup rows docs s = (Inr (docs @ ds), s')"
    by (rule employee_loop_returns)
next
  assume "strptime (PStr str) s = (Inl e, s) \<and> str \<noteq> []"
  then show "transform_date (PStr str) s =
           (Inr PNone, s\<lparr>trace := trace s @ [Log ERROR ''Error converting date {date_str}: {e}''
                                                [AVal (PStr str), AExn e]]\<rparr>)"
    using transform_date_malformed by blast
next
  show "\<exists>d s'. transform_employee_etl employee_row s = (Inr d, s')"
    by (rule transform_employee_etl_returns)
qed


theorem C4_failed_employee_skipped_witness:
  "map_of sample_bad_employee ''emp_no'' = Some (PInt 10002)
   \<and> transform_employee sample_bad_employee [] [] [] [] Map.empty init_state
       = (Inl ValueError,
          \<lparr>trace = [Log ERROR ''Date conversion error for value %s: %s''
                       [AVal (PStr ''not-a-date''), AExn ValueError],
                    Log ERROR ''Error transforming employee %s: %s''
                       [AVal (PInt 10002), AExn ValueError]],
           connection = False\<rparr>)
   \<and> employee_loop Map.empty Map.empty Map.empty Map.empty Map.empty
        [sample_bad_employee, sample_employee] [] init_state
       = (Inr [Dict [(''emp_no'', Val (PInt 10001)), (''birth_date'', Val (PDate 1953 9 2)),
                 (''first_name'', Val (PStr ''Georgi'')), (''last_name'', Val (PStr ''Facello'')),
                 (''gender'', Val (PStr ''M'')),
                 (''hire_date'', Val (PDateTime 1986 6 26 0 0 0)),
                 (''departments'', Lst []), (''salaries'', Lst []), (''titles'', Lst []),
                 (''management'', Val PNone)]],
          \<lparr>trace = [Log ERROR ''Date conversion error for value %s: %s''
                       [AVal (PStr ''not-a-date''), AExn ValueError],
                    Log ERROR ''Error transforming employee %s: %s''
                       [AVal (PInt 10002), AExn ValueError],
                    Log ERROR ''Skipping employee %s due to transformation error.''
                       [AVal (PInt 10002)]],
           connection = False\<rparr>)
   \<and> strptime (PStr ''not-a-date'') init_state = (Inl ValueError, init_state)
   \<and> transform_date (PStr ''not-a-date'') init_state
       = (Inr PNone,
          \<lparr>trace = [Log ERROR ''Error converting date {date_str}: {e}''
                       [AVal (PStr ''not-a-date''), AExn ValueError]],
           connection = False\<rparr>)"
  using C4_failed_employee_skipped[where emp = sample_bad_employee and emp_no = "PInt 10002"
      and dept_emp_by_emp = Map.empty and dept_manager_by_emp = Map.empty
      and salaries_by_emp = Map.empty and titles_by_emp = Map.empty and lookup = Map.empty
      and s = init_state and exc = ValueError
      and ?s1.0 = "\<lparr>trace = [Log ERROR ''Date conversion error for value %s: %s''
                       [AVal (PStr ''not-a-date''), AExn ValueError],
                    Log ERROR ''Error transforming employee %s: %s''
                       [AVal (PInt 10002), AExn ValueError]],
           connection = False\<rparr>"
      and emps = "[sample_employee]" and docs = "[]"
      and rows = "[sample_bad_employee, sample_employee]"
      and str = "''not-a-date''" and e = ValueError and employee_row = sample_bad_employee]
  by (simp add: eval_defs m_defs sample_employee_def sample_bad_employee_def
      transform_date_def)

text \<open>
  C4 as stated fails: for a row with the birth date \<open>not-a-date\<close> the loop of \<open>main\<close>
  drops the document, but none of the three records it logs is a warning (all are at
  level \<open>ERROR\<close>); and pipeline.py keeps the document of the same row, with a null
  birth date.
\<close>

theorem C4_counterexample:
  "employee_loop Map.empty Map.empty Map.empty Map.empty Map.empty [sample_bad_employee] []
      init_state
     = (Inr [],
        \<lparr>trace = [Log ERROR ''Date conversion error for value %s: %s''
                     [AVal (PStr ''not-a-date''), AExn ValueError],
                  Log ERROR ''Error transforming employee %s: %s''
                     [AVal (PInt 10002), AExn ValueError],
                  Log ERROR ''Skipping employee %s due to transformation error.''
                     [AVal (PInt 10002)]],
         connection = False\<rparr>)
   \<and> fst (transform_employee_etl sample_bad_employee init_state)
     = Inr (Dict [(''emp_no'', Val (PInt 10002)), (''birth_date'', Val PNone),
                  (''first_name'', Val (PStr ''Bezalel'')), (''last_name'', Val (PStr ''Simmel'')),
                  (''gender'', Val (PStr ''F'')),
                  (''hire_date'', Val (PDateTime 1985 11 21 0 0 0)),
                  (''titles'', Lst []), (''salaries'', Lst []), (''departments'', Lst [])])"
  by (simp add: eval_defs m_defs sample_bad_employee_def transform_date_def
      transform_employee_etl_def get_def)

section \<open>Loading a collection\<close>


lemma slice_nat: "slice xs (int i) (int i + int b) = take b (drop i xs)"
proof (cases "i \<le> length xs")
  case True
  show ?thesis
  proof (cases "i + b \<le> length xs")
    case True
    with \<open>i \<le> length xs\<close> show ?thesis by (simp add: slice_def Let_def min_def)
  next
    case False
    with \<open>i \<le> length xs\<close> have "nat (int (length xs) - int i) = length xs - i" by simp
    with False \<open>i \<le> length xs\<close> show ?thesis by (simp add: slice_def Let_def min_def)
  qed
next
  case False
  then show ?thesis by (simp add: slice_def Let_def min_def)
qed

lemma slice_batch:
  "slice xs (int k * int b) (int k * int b + int b) = take b (drop (k * b) xs)"
  using slice_nat[of xs "k * b" b] by simp

lemma concat_take_drop:
  "concat (map (\<lambda>k. take b (drop (k * b) xs)) [0..<n]) = take (n * b) xs"
proof (induction n)
  case 0
  then show ?case by simp
next
  case (Suc n)
  have "take (n * b) xs @ take b (drop (n * b) xs) = take (n * b + b) xs"
    by (simp add: take_add)
  with Suc show ?case by (simp add: add.commute)
qed

lemma ceil_div_bounds:
  assumes "0 < (b::nat)"
  shows "d \<le> ((d + b - 1) div b) * b" and "((d + b - 1) div b) * b < d + b"
proof -
  have e: "(d + b - 1) div b * b + (d + b - 1) mod b = d + b - 1" by simp
  have m: "(d + b - 1) mod b < b" using assms by simp
  from e m assms show "d \<le> ((d + b - 1) div b) * b" by linarith
  from e assms show "((d + b - 1) div b) * b < d + b" by linarith
qed

lemma ceiling_div_nat:
  assumes "0 < (b::nat)"
  shows "\<lceil>real d / real b\<rceil> = int ((d + b - 1) div b)"
proof (rule ceiling_unique)
  let ?n = "(d + b - 1) div b"
  from ceil_div_bounds[OF assms, of d] have 1: "d \<le> ?n * b" and 2: "?n * b < d + b" by auto
  from 1 have "real d \<le> real ?n * real b" by (metis of_nat_le_iff of_nat_mult)
  then show "real d / real b \<le> of_int (int ?n)" using assms by (simp add: pos_divide_le_eq)
  from 2 have "real ?n * real b < real d + real b" by (metis of_nat_less_iff of_nat_mult of_nat_add)
  then have "(real ?n - 1) * real b < real d" by (simp add: algebra_simps)
  then show "of_int (int ?n) - 1 < real d / real b" using assms by (simp add: pos_less_divide_eq)
qed

lemma nat_ceil_div:
  assumes "0 < b"
  shows "nat ((int d + int b - 1) div int b) = (d + b - 1) div b"
proof -
  have "int d + int b - 1 = int (d + b - 1)" using assms by simp
  then have "(int d + int b - 1) div int b = int ((d + b - 1) div b)"
    by (simp only: zdiv_int)
  then show ?thesis by (simp only: nat_int)
qed

lemma batches_nat:
  assumes "0 < b"
  shows "batches xs (int b) = map (\<lambda>k. take b (drop (k * b) xs)) [0 ..< (length xs + b - 1) div b]"
  unfolding batches_def nat_ceil_div[OF assms] by (simp add: slice_batch)

lemma batches_concat: "0 < b \<Longrightarrow> concat (batches xs (int b)) = xs"
  using ceil_div_bounds(1)[of b "length xs"]
  by (simp add: batches_nat concat_take_drop)

lemma batches_length: "0 < b \<Longrightarrow> length (batches xs (int b)) = (length xs + b - 1) div b"
  by (simp add: batches_nat)

lemma batches_sizes:
  assumes "0 < b" and "ys \<in> set (batches xs (int b))"
  shows "ys \<noteq> [] \<and> length ys \<le> b"
proof -
  from assms obtain k where k: "k < (length xs + b - 1) div b" and ys: "ys = take b (drop (k * b) xs)"
    by (auto simp: batches_nat)
  from k have "Suc k \<le> (length xs + b - 1) div b" by simp
  then have "Suc k * b \<le> (length xs + b - 1) div b * b" by (rule mult_le_mono1)
  with ceil_div_bounds(2)[OF assms(1), of "length xs"] have "k * b < length xs" by simp
  with ys assms(1) show ?thesis by auto
qed


lemma call_ok: "world (trace s) ev = Inr rows \<Longrightarrow> call world ev s = (Inr rows, emit ev s)"
  by (simp add: call_def)

lemma call_fail: "world (trace s) ev = Inl f \<Longrightarrow> call world ev s = (Inl (raised f), emit ev s)"
  by (simp add: call_def)

lemma for_each_calls_ok:
  assumes "\<forall>j<length xs. \<exists>rows. world (trace s @ map ev (take j xs)) (ev (xs ! j)) = Inr rows"
  shows "for_each (\<lambda>x. call world (ev x)) xs s = (Inr (), s\<lparr>trace := trace s @ map ev xs\<rparr>)"
  using assms
proof (induction xs arbitrary: s)
  case Nil
  then show ?case by (simp add: m_return_def)
next
  case (Cons x xs)
  from Cons.prems[rule_format, of 0] obtain rows where
    c: "call world (ev x) s = (Inr rows, emit (ev x) s)"
    by (auto simp: call_ok)
  have "\<forall>j<length xs. \<exists>rows.
          world (trace (emit (ev x) s) @ map ev (take j xs)) (ev (xs ! j)) = Inr rows"
  proof (intro allI impI)
    fix j assume "j < length xs"
    with Cons.prems[rule_format, of "Suc j"]
    show "\<exists>rows. world (trace (emit (ev x) s) @ map ev (take j xs)) (ev (xs ! j)) = Inr rows"
      by (simp add: emit_def)
  qed
  from Cons.IH[OF this] c show ?case by (simp add: m_bind_def emit_def)
qed

lemma for_each_calls_fail:
  assumes "k < length xs"
    and "\<forall>j<k. \<exists>rows. world (trace s @ map ev (take j xs)) (ev (xs ! j)) = Inr rows"
    and "world (trace s @ map ev (take k xs)) (ev (xs ! k)) = Inl f"
  shows "for_each (\<lambda>x. call world (ev x)) xs s
           = (Inl (raised f), s\<lparr>trace := trace s @ map ev (take (Suc k) xs)\<rparr>)"
  using assms
proof (induction xs arbitrary: s k)
  case Nil
  then show ?case by simp
next
  case (Cons x xs)
  show ?case
  proof (cases k)
    case 0
    with Cons.prems(3) have "call world (ev x) s = (Inl (raised f), emit (ev x) s)"
      by (simp add: call_fail)
    with 0 show ?thesis by (simp add: m_bind_def emit_def)
  next
    case (Suc k')
    from Cons.prems(2)[rule_format, of 0] Suc obtain rows where
      c: "call world (ev x) s = (Inr rows, emit (ev x) s)"
      by (auto simp: call_ok)
    have 1: "k' < length xs" using Cons.prems(1) Suc by simp
    have 2: "\<forall>j<k'. \<exists>rows.
          world (trace (emit (ev x) s) @ map ev (take j xs)) (ev (xs ! j)) = Inr rows"
    proof (intro allI impI)
      fix j assume "j < k'"
      with Cons.prems(2)[rule_format, of "Suc j"] Suc
      show "\<exists>rows. world (trace (emit (ev x) s) @ map ev (take j xs)) (ev (xs ! j)) = Inr rows"
        by (simp add: emit_def)
    qed
    have 3: "world (trace (emit (ev x) s) @ map ev (take k' xs)) (ev (xs ! k')) = Inl f"
      using Cons.prems(3) Suc by (simp add: emit_def)
    from Cons.IH[OF 1 2 3] c Suc show ?thesis by (simp add: m_bind_def emit_def)
  qed
qed

lemma py_range_batches:
  assumes "0 < batch_size"
  shows "py_range 0 (int (length documents)) batch_size s
       = (Inr (map (\<lambda>k. int k * batch_size)
                 [0 ..< nat ((int (length documents) + batch_size - 1) div batch_size)]), s)"
  using assms by (simp add: py_range_def m_return_def)

lemma insert_events:
  "map (\<lambda>i. InsertMany name (slice documents i (i + batch_size)))
      (map (\<lambda>k. int k * batch_size)
         [0 ..< nat ((int (length documents) + batch_size - 1) div batch_size)])
   = map (InsertMany name) (batches documents batch_size)"
  by (simp add: batches_def comp_def)

text \<open>The body of the \<open>try\<close> block of \<open>load_collection\<close>, for a positive batch size.\<close>

lemma for_each_map: "for_each f (map g xs) = for_each (\<lambda>x. f (g x)) xs"
  by (induction xs) simp_all

lemma load_loop:
  assumes "0 < batch_size"
  shows "m_bind (py_range 0 (int (length documents)) batch_size) (\<lambda>indices.
           m_bind (for_each
                    (\<lambda>i. call world
                       (InsertMany name (slice documents i (i + batch_size))))
                    indices) f) s
       = m_bind (for_each (\<lambda>ev. call world ev)
                   (map (InsertMany name) (batches documents batch_size))) f s"
  unfolding m_bind_cong_state[OF py_range_batches[OF assms]] insert_events[symmetric]
    for_each_map ..


lemma batches_Nil: "0 < batch_size \<Longrightarrow> batches [] batch_size = []"
  by (simp add: batches_def)

lemma batches_pos:
  assumes "0 < batch_size"
  obtains b where "0 < b" and "batch_size = int b"
  by (rule that[of "nat batch_size"]) (use assms in simp_all)

text \<open>
  C1 (amended). Called with an empty documents sequence, \<open>load_collection\<close> still issues
  \<open>delete_many\<close> on the named collection, so its prior content is cleared; when that call
  returns it returns without logging, and in every case the delete is the only driver
  call it makes: it issues no insert.
\<close>

theorem C1_empty_documents:
  \<open>(world (trace s) (DeleteMany name) = Inr rows \<longrightarrow>
      load_collection world name [] batch_size s
        = (Inr (), s\<lparr>trace := trace s @ [DeleteMany name]\<rparr>))
   \<and> calls_of (trace (snd (load_collection world name [] batch_size s)))
        = calls_of (trace s) @ [DeleteMany name]\<close>
proof (cases "world (trace s) (DeleteMany name)")
  case (Inl f)
  then show ?thesis
    by (cases f)
       (simp_all add: load_collection_def m_defs emit_def raised_def calls_of_def)
next
  case (Inr r)
  then show ?thesis
    by (simp add: load_collection_def m_defs emit_def calls_of_def)
qed

theorem C1_empty_documents_witness:
  "world_ok (trace init_state) (DeleteMany ''departments'') = Inr []
   \<and> load_collection world_ok ''departments'' [] 1000 init_state
        = (Inr (), \<lparr>trace = [DeleteMany ''departments''], connection = False\<rparr>)
   \<and> calls_of (trace (snd (load_collection world_ok ''departments'' [] 1000 init_state)))
        = [DeleteMany ''departments'']"
  using C1_empty_documents[where world = world_ok and s = init_state
      and name = "''departments''" and rows = "[]" and batch_size = 1000]
  by (simp add: world_ok_def init_state_def calls_of_def)

text \<open>
  C1 as stated fails: with no documents, on a server that answers every call, the one
  event of \<open>load_collection\<close> is the delete on the collection.
\<close>

theorem C1_counterexample:
  "load_collection world_ok ''employees'' [] 1000 init_state
     = (Inr (), \<lparr>trace = [DeleteMany ''employees''], connection = False\<rparr>)"
  by (simp add: load_collection_def m_defs emit_def world_ok_def init_state_def)

lemma load_collection_ok:
  assumes "0 < batch_size" and "\<forall>t ev. \<exists>rows. world t ev = Inr rows"
  shows \<open>load_collection world name documents batch_size s
       = (Inr (), s\<lparr>trace := trace s @ DeleteMany name
              # map (InsertMany name) (batches documents batch_size)
              @ (if documents = [] then []
                 else [Log INFO ''Loaded %d documents into collection "%s"''
                         [AInt (int (length documents)), AStr name]])\<rparr>)\<close>
proof -
  from assms(2) obtain r0 where
    d: "call world (DeleteMany name) s = (Inr r0, emit (DeleteMany name) s)"
    using call_ok by metis
  have loop: "for_each (\<lambda>ev. call world ev) (map (InsertMany name) (batches documents batch_size))
                (emit (DeleteMany name) s)
            = (Inr (), (emit (DeleteMany name) s)\<lparr>trace := trace (emit (DeleteMany name) s)
                 @ map (\<lambda>ev. ev) (map (InsertMany name) (batches documents batch_size))\<rparr>)"
    by (rule for_each_calls_ok) (use assms(2) in simp)
  show ?thesis
  proof (cases "documents = []")
    case True
    with d show ?thesis
      by (simp add: load_collection_def m_try_def m_bind_def m_return_def emit_def
          batches_Nil[OF assms(1)])
  next
    case False
    note step = m_bind_cong_state[where c = "call world (DeleteMany name)", OF d]
    from False loop show ?thesis
      unfolding load_collection_def
      by (simp add: m_try_def step load_loop[OF assms(1)])
         (simp add: m_bind_def logging_def emit_def)
  qed
qed

text \<open>
  C7 (amended). For a positive batch size, when no driver call raises, \<open>load_collection\<close>
  issues after the delete one insert per batch of \<open>batches\<close>, in order, and then returns;
  the batches number \<open>ceil(D/B)\<close>, their concatenation is the documents sequence (every
  document is in exactly one batch, consecutively), and each has at least one and at
  most \<open>B\<close> documents.
\<close>

theorem C7_batch_partition:
  assumes "0 < batch_size" and "\<forall>t ev. \<exists>rows. world t ev = Inr rows"
  shows \<open>load_collection world name documents batch_size s
       = (Inr (), s\<lparr>trace := trace s @ DeleteMany name
              # map (InsertMany name) (batches documents batch_size)
              @ (if documents = [] then []
                 else [Log INFO ''Loaded %d documents into collection "%s"''
                         [AInt (int (length documents)), AStr name]])\<rparr>)
     \<and> int (length (batches documents batch_size))
         = \<lceil>real (length documents) / real_of_int batch_size\<rceil>
     \<and> concat (batches documents batch_size) = documents
     \<and> (\<forall>b\<in>set (batches documents batch_size). b \<noteq> [] \<and> int (length b) \<le> batch_size)\<close>
proof -
  from assms(1) obtain b where b: "0 < b" and bs: "batch_size = int b" by (rule batches_pos)
  have "int (length (batches documents batch_size))
         = \<lceil>real (length documents) / real_of_int batch_size\<rceil>"
    unfolding bs by (simp add: batches_length[OF b] ceiling_div_nat[OF b])
  moreover have "concat (batches documents batch_size) = documents"
    unfolding bs by (rule batches_concat[OF b])
  moreover have "\<forall>b\<in>set (batches documents batch_size). b \<noteq> [] \<and> int (length b) \<le> batch_size"
    unfolding bs using batches_sizes[OF b] by auto
  ultimately show ?thesis using load_collection_ok[OF assms] by simp
qed

lemmas load_eval = load_collection_def py_range_def slice_def m_defs emit_def raised_def
  init_state_def

theorem C7_batch_partition_witness:
  \<open>load_collection world_ok ''employees'' [sample_doc 1, sample_doc 2, sample_doc 3] 2
      init_state
     = (Inr (), \<lparr>trace = [DeleteMany ''employees'',
                          InsertMany ''employees'' [sample_doc 1, sample_doc 2],
                          InsertMany ''employees'' [sample_doc 3],
                          Log INFO ''Loaded %d documents into collection "%s"''
                            [AInt 3, AStr ''employees'']],
                 connection = False\<rparr>)
   \<and> batches [sample_doc 1, sample_doc 2, sample_doc 3] 2
       = [[sample_doc 1, sample_doc 2], [sample_doc 3]]
   \<and> \<lceil>real (length [sample_doc 1, sample_doc 2, sample_doc 3]) / real_of_int 2\<rceil> = 2\<close>
  using C7_batch_partition[where world = world_ok and batch_size = 2 and name = "''employees''"
      and documents = "[sample_doc 1, sample_doc 2, sample_doc 3]" and s = init_state]
  by (simp add: world_ok_def batches_def slice_def init_state_def upt_rec)

text \<open>
  C7 as stated fails: for five documents and batch size 2, when the insert of the second
  batch raises, \<open>load_collection\<close> has issued two inserts where \<open>ceil(5/2)\<close> is 3, and the
  fifth document is in no batch.
\<close>

theorem C7_counterexample:
  "calls_of (trace (snd (load_collection (world_fails_on [sample_doc 3, sample_doc 4])
       ''employees''
       [sample_doc 1, sample_doc 2, sample_doc 3, sample_doc 4, sample_doc 5] 2 init_state)))
     = [DeleteMany ''employees'',
        InsertMany ''employees'' [sample_doc 1, sample_doc 2],
        InsertMany ''employees'' [sample_doc 3, sample_doc 4]]
   \<and> \<lceil>real (length [sample_doc 1, sample_doc 2, sample_doc 3, sample_doc 4, sample_doc 5])
         / real_of_int 2\<rceil> = 3"
  by (simp add: load_eval world_fails_on_def sample_doc_def upt_rec calls_of_def)


lemma load_collection_bulk_error:
  assumes pos: "0 < batch_size" and k: "k < length (batches documents batch_size)"
    and del: "world (trace s) (DeleteMany name) = Inr r0"
    and before: "\<forall>j<k. \<exists>rows.
        world (trace s @ DeleteMany name
                 # map (InsertMany name) (take j (batches documents batch_size)))
          (InsertMany name (batches documents batch_size ! j)) = Inr rows"
    and fails: "world (trace s @ DeleteMany name
                 # map (InsertMany name) (take k (batches documents batch_size)))
          (InsertMany name (batches documents batch_size ! k)) = Inl (BulkWriteFailure details)"
  shows "load_collection world name documents batch_size s
       = (Inl (BulkWriteError details),
          s\<lparr>trace := trace s @ DeleteMany name
              # map (InsertMany name) (take (Suc k) (batches documents batch_size))
              @ [Log ERROR ''Bulk write error: %s'' [AExn (BulkWriteError details)]]\<rparr>)"
proof -
  let ?bs = "batches documents batch_size"
  let ?s1 = "emit (DeleteMany name) s"
  have ne: "documents \<noteq> []"
  proof
    assume "documents = []"
    with k show False by (simp add: batches_Nil[OF pos])
  qed
  from del have d: "call world (DeleteMany name) s = (Inr r0, ?s1)" by (rule call_ok)
  have k': "k < length (map (InsertMany name) ?bs)" using k by simp
  have b': "\<forall>j<k. \<exists>rows. world (trace ?s1 @ map (\<lambda>ev. ev) (take j (map (InsertMany name) ?bs)))
                 (map (InsertMany name) ?bs ! j) = Inr rows"
    using before k by (simp add: emit_def take_map)
  have f': "world (trace ?s1 @ map (\<lambda>ev. ev) (take k (map (InsertMany name) ?bs)))
                 (map (InsertMany name) ?bs ! k) = Inl (BulkWriteFailure details)"
    using fails k by (simp add: emit_def take_map)
  have loop: "for_each (\<lambda>ev. call world ev) (map (InsertMany name) ?bs) ?s1
      = (Inl (raised (BulkWriteFailure details)),
         ?s1\<lparr>trace := trace ?s1 @ map (\<lambda>ev. ev) (take (Suc k) (map (InsertMany name) ?bs))\<rparr>)"
    by (rule for_each_calls_fail[OF k' b' f'])
  note step = m_bind_cong_state[where c = "call world (DeleteMany name)", OF d]
  from ne loop show ?thesis
    unfolding load_collection_def
    by (simp add: m_try_def step load_loop[OF pos])
       (simp add: m_bind_def logging_def emit_def raised_def is_Exception_def m_raise_def
          take_map)
qed

lemma insert_employees_returns:
  assumes "employees \<noteq> []"
  shows "\<exists>l msg args. insert_employees world employees s
           = (Inr (), s\<lparr>trace := trace s @ [InsertMany ''employees'' employees,
                                               Log l msg args]\<rparr>)"
proof (cases "world (trace s) (InsertMany ''employees'' employees)")
  case (Inl f)
  with assms show ?thesis
    by (cases f) (fastforce simp add: insert_employees_def m_defs emit_def raised_def)+
next
  case (Inr r)
  with assms show ?thesis by (fastforce simp add: insert_employees_def m_defs emit_def)
qed

lemma insert_departments_returns:
  assumes "departments \<noteq> []"
  shows "\<exists>l msg args. insert_departments world departments s
           = (Inr (), s\<lparr>trace := trace s @ [InsertMany ''departments'' departments,
                                               Log l msg args]\<rparr>)"
proof (cases "world (trace s) (InsertMany ''departments'' departments)")
  case (Inl f)
  with assms show ?thesis
    by (cases f) (fastforce simp add: insert_departments_def m_defs emit_def raised_def)+
next
  case (Inr r)
  with assms show ?thesis by (fastforce simp add: insert_departments_def m_defs emit_def)
qed

lemma insert_dept_managers_returns:
  assumes "dept_managers \<noteq> []"
  shows "\<exists>l msg args. insert_dept_managers world dept_managers s
           = (Inr (), s\<lparr>trace := trace s @ [InsertMany ''dept_manager'' dept_managers,
                                               Log l msg args]\<rparr>)"
proof (cases "world (trace s) (InsertMany ''dept_manager'' dept_managers)")
  case (Inl f)
  with assms show ?thesis
    by (cases f) (fastforce simp add: insert_dept_managers_def m_defs emit_def raised_def)+
next
  case (Inr r)
  with assms show ?thesis by (fastforce simp add: insert_dept_managers_def m_defs emit_def)
qed

lemma insert_employees_bulk_error:
  assumes "employees \<noteq> []"
    and "world (trace s) (InsertMany ''employees'' employees) = Inl (BulkWriteFailure details)"
  shows "insert_employees world employees s
           = (Inr (), s\<lparr>trace := trace s @ [InsertMany ''employees'' employees,
                Log ERROR ''Bulk write error inserting employees: {bwe.details}''
                  [AExn (BulkWriteError details)]]\<rparr>)"
  using assms by (simp add: insert_employees_def m_defs emit_def raised_def)

lemma etl_load_calls:
  assumes "departments_out td \<noteq> []" "employees_out td \<noteq> []" "dept_manager_out td \<noteq> []"
  shows "calls_of (trace (snd (etl_load world td s)))
       = calls_of (trace s) @ [InsertMany ''departments'' (departments_out td),
                               InsertMany ''employees'' (employees_out td),
                               InsertMany ''dept_manager'' (dept_manager_out td), MongoClose]"
proof -
  from insert_departments_returns[OF assms(1)] obtain l1 m1 a1 where
    1: "insert_departments world (departments_out td) s
          = (Inr (), s\<lparr>trace := trace s @ [InsertMany ''departments'' (departments_out td),
                                              Log l1 m1 a1]\<rparr>)" (is "_ = (_, ?s1)")
    by blast
  from insert_employees_returns[OF assms(2), of world ?s1] obtain l2 m2 a2 where
    2: "insert_employees world (employees_out td) ?s1
          = (Inr (), s\<lparr>trace := trace s @ [InsertMany ''departments'' (departments_out td),
                Log l1 m1 a1, InsertMany ''employees'' (employees_out td),
                Log l2 m2 a2]\<rparr>)" (is "_ = (_, ?s2)")
    by auto
  from insert_dept_managers_returns[OF assms(3), of world ?s2] obtain l3 m3 a3 where
    3: "insert_dept_managers world (dept_manager_out td) ?s2
          = (Inr (), s\<lparr>trace := trace s @ [InsertMany ''departments'' (departments_out td),
                Log l1 m1 a1, InsertMany ''employees'' (employees_out td),
                Log l2 m2 a2, InsertMany ''dept_manager'' (dept_manager_out td),
                Log l3 m3 a3]\<rparr>)" (is "_ = (_, ?s3)")
    by auto
  have body: "m_bind (insert_departments world (departments_out td)) (\<lambda>_.
           m_bind (insert_employees world (employees_out td)) (\<lambda>_.
           insert_dept_managers world (dept_manager_out td))) s = (Inr (), ?s3)"
    by (simp add: m_bind_def 1 2 3)
  show ?thesis
    unfolding etl_load_def m_finally_def m_try_def body
    by (simp add: m_bind_def MongoDBLoader_close_def call_def logging_def emit_def
        calls_of_def split: sum.splits)
qed


text \<open>
  C2 (amended). In \<open>load_collection\<close>, when the insert of a batch raises a
  \<open>BulkWriteError\<close> (the batches before it inserted), the error is logged and raised again:
  the call ends with that error and no later batch is inserted. The insert operations of
  pipeline.py log the error and return, and \<open>load\<close> there issues the inserts of all
  three collections and closes the client whatever the inserts answer.
\<close>

theorem C2_bulk_write_error:
  "(0 < batch_size \<and> k < length (batches documents batch_size)
      \<and> world (trace s) (DeleteMany name) = Inr r0
      \<and> (\<forall>j<k. \<exists>rows.
            world (trace s @ DeleteMany name
                     # map (InsertMany name) (take j (batches documents batch_size)))
              (InsertMany name (batches documents batch_size ! j)) = Inr rows)
      \<and> world (trace s @ DeleteMany name
                  # map (InsertMany name) (take k (batches documents batch_size)))
           (InsertMany name (batches documents batch_size ! k))
          = Inl (BulkWriteFailure details)
    \<longrightarrow> load_collection world name documents batch_size s
        = (Inl (BulkWriteError details),
           s\<lparr>trace := trace s @ DeleteMany name
               # map (InsertMany name) (take (Suc k) (batches documents batch_size))
               @ [Log ERROR ''Bulk write error: %s'' [AExn (BulkWriteError details)]]\<rparr>))
   \<and> (employees \<noteq> []
      \<and> world (trace s) (InsertMany ''employees'' employees) = Inl (BulkWriteFailure details)
    \<longrightarrow> insert_employees world employees s
        = (Inr (), s\<lparr>trace := trace s @ [InsertMany ''employees'' employees,
             Log ERROR ''Bulk write error inserting employees: {bwe.details}''
               [AExn (BulkWriteError details)]]\<rparr>))
   \<and> (departments_out td \<noteq> [] \<and> employees_out td \<noteq> [] \<and> dept_manager_out td \<noteq> []
    \<longrightarrow> calls_of (trace (snd (etl_load world td s)))
        = calls_of (trace s) @ [InsertMany ''departments'' (departments_out td),
                                InsertMany ''employees'' (employees_out td),
                                InsertMany ''dept_manager'' (dept_manager_out td), MongoClose])"
  using load_collection_bulk_error[of batch_size k documents world s name r0 details]
    insert_employees_bulk_error[of employees world s details]
    etl_load_calls[of td world s]
  by blast

theorem C2_bulk_write_error_witness:
  "batches [sample_doc 1, sample_doc 2, sample_doc 3, sample_doc 4, sample_doc 5] 2
     = [[sample_doc 1, sample_doc 2], [sample_doc 3, sample_doc 4], [sample_doc 5]]
   \<and> load_collection (world_fails_on [sample_doc 3, sample_doc 4]) ''employees''
       [sample_doc 1, sample_doc 2, sample_doc 3, sample_doc 4, sample_doc 5] 2 init_state
     = (Inl (BulkWriteError [0]),
        \<lparr>trace = [DeleteMany ''employees'',
                  InsertMany ''employees'' [sample_doc 1, sample_doc 2],
                  InsertMany ''employees'' [sample_doc 3, sample_doc 4],
                  Log ERROR ''Bulk write error: %s'' [AExn (BulkWriteError [0])]],
         connection = False\<rparr>)
   \<and> insert_employees (world_fails_on [sample_doc 3, sample_doc 4])
       [sample_doc 3, sample_doc 4] init_state
     = (Inr (),
        \<lparr>trace = [InsertMany ''employees'' [sample_doc 3, sample_doc 4],
                  Log ERROR ''Bulk write error inserting employees: {bwe.details}''
                    [AExn (BulkWriteError [0])]],
         connection = False\<rparr>)
   \<and> calls_of (trace (snd (etl_load (world_fails_on [sample_doc 3, sample_doc 4])
         \<lparr>employees_out = [sample_doc 3, sample_doc 4], departments_out = [sample_doc 1],
          dept_manager_out = [sample_doc 2]\<rparr> init_state)))
     = [InsertMany ''departments'' [sample_doc 1],
        InsertMany ''employees'' [sample_doc 3, sample_doc 4],
        InsertMany ''dept_manager'' [sample_doc 2], MongoClose]"
  using C2_bulk_write_error[where world = "world_fails_on [sample_doc 3, sample_doc 4]"
      and batch_size = 2 and k = 1 and name = "''employees''" and s = init_state
      and documents = "[sample_doc 1, sample_doc 2, sample_doc 3, sample_doc 4, sample_doc 5]"
      and ?r0.0 = "[]" and details = "[0]" and employees = "[sample_doc 3, sample_doc 4]"
      and td = "\<lparr>employees_out = [sample_doc 3, sample_doc 4],
                  departments_out = [sample_doc 1], dept_manager_out = [sample_doc 2]\<rparr>"]
  by (simp add: world_fails_on_def batches_def slice_def init_state_def upt_rec
      sample_doc_def calls_of_def)

text \<open>
  C2 as stated fails: when the insert of the second of three batches fails,
  \<open>load_collection\<close> raises the \<open>BulkWriteError\<close> and the third batch is never inserted;
  and when the insert into \<open>employees\<close> fails, \<open>main\<close> makes no call on the
  \<open>departments\<close> collection.
\<close>

theorem C2_counterexample:
  "load_collection (world_fails_on [sample_doc 3, sample_doc 4]) ''employees''
       [sample_doc 1, sample_doc 2, sample_doc 3, sample_doc 4, sample_doc 5] 2 init_state
     = (Inl (BulkWriteError [0]),
        \<lparr>trace = [DeleteMany ''employees'',
                  InsertMany ''employees'' [sample_doc 1, sample_doc 2],
                  InsertMany ''employees'' [sample_doc 3, sample_doc 4],
                  Log ERROR ''Bulk write error: %s'' [AExn (BulkWriteError [0])]],
         connection = False\<rparr>)
   \<and> calls_of (trace (snd (main world_sample_bulk_error init_state)))
     = [Connect, Execute ''SELECT * FROM employees'', Execute ''SELECT * FROM departments'',
        Execute ''SELECT * FROM dept_emp'', Execute ''SELECT * FROM dept_manager'',
        Execute ''SELECT * FROM salaries'', Execute ''SELECT * FROM titles'', MongoClient,
        DeleteMany ''employees'',
        InsertMany ''employees''
          [Dict [(''emp_no'', Val (PInt 10001)), (''birth_date'', Val (PDate 1953 9 2)),
                 (''first_name'', Val (PStr ''Georgi'')), (''last_name'', Val (PStr ''Facello'')),
                 (''gender'', Val (PStr ''M'')),
                 (''hire_date'', Val (PDateTime 1986 6 26 0 0 0)),
                 (''departments'', Lst []), (''salaries'', Lst []), (''titles'', Lst []),
                 (''management'', Val PNone)]],
        Close]"
  by (simp add: load_eval world_fails_on_def sample_doc_def upt_rec
        main_def main_try_def connect_def extract_query_def close_def MongoLoader_init_def
        set_connection_def world_sample_bulk_error_def eval_defs sample_employee_def
        sample_department_def calls_of_def)

section \<open>The employee index of pipeline.py\<close>


lemma transform_employee_etl_Inr:
  assumes "transform_employee_etl r s = (Inr d, s')"
  shows "\<exists>b h. d = Dict [(''emp_no'', Val (get r ''emp_no'')), (''birth_date'', Val b),
                     (''first_name'', Val (get r ''first_name'')),
                     (''last_name'', Val (get r ''last_name'')),
                     (''gender'', Val (get r ''gender'')),
                     (''hire_date'', Val h),
                     (''titles'', Lst []), (''salaries'', Lst []),
                     (''departments'', Lst [])]"
  using assms unfolding transform_employee_etl_def
  by (elim m_bind_Inr_D) (auto simp: m_return_def)

lemma transform_employee_etl_emp_no:
  "transform_employee_etl r s = (Inr d, s') \<Longrightarrow> doc_field d ''emp_no'' = Some (Val (get r ''emp_no''))"
  by (drule transform_employee_etl_Inr) (auto simp: doc_field_def)

lemma index_employees_step:
  assumes "transform_employee_etl emp s = (Inr d, s1)"
  shows "index_employees (emp # emps) idx s
       = index_employees emps (AList.update (get emp ''emp_no'') d idx) s1"
proof -
  from transform_employee_etl_Inr[OF assms] obtain kvs where
    d: "d = Dict kvs" and k: "map_of kvs ''emp_no'' = Some (Val (get emp ''emp_no''))"
    by auto
  have "m_bind (doc_getitem d ''emp_no'') key_of s1 = (Inr (get emp ''emp_no''), s1)"
    by (simp add: d k doc_getitem_def key_of_def m_bind_def m_return_def)
  then show ?thesis by (simp add: assms m_bind_def)
qed

lemma index_employees_Inr:
  assumes "index_employees rows idx s = (Inr idx', s')"
  shows "fst ` set idx' = fst ` set idx \<union> (\<lambda>r. get r ''emp_no'') ` set rows"
    and "distinct (map fst idx) \<longrightarrow> distinct (map fst idx')"
    and "\<forall>k. k \<in> (\<lambda>r. get r ''emp_no'') ` set rows \<longrightarrow>
           (\<exists>d s1 s2. map_of idx' k = Some d
              \<and> transform_employee_etl (last (filter (\<lambda>r. get r ''emp_no'' = k) rows)) s1
                  = (Inr d, s2))"
    and "\<forall>k. k \<notin> (\<lambda>r. get r ''emp_no'') ` set rows \<longrightarrow> map_of idx' k = map_of idx k"
  using assms
proof (induction rows arbitrary: idx s)
  case Nil
  { case 1 then show ?case by (simp add: m_return_def) }
  { case 2 then show ?case by (simp add: m_return_def) }
  { case 3 then show ?case by simp }
  { case 4 then show ?case by (simp add: m_return_def) }
next
  case (Cons emp emps)
  { case 1
    then obtain d s1 where t: "transform_employee_etl emp s = (Inr d, s1)"
      by (auto simp: m_bind_Inr)
    from 1 have r: "index_employees emps (AList.update (get emp ''emp_no'') d idx) s1 = (Inr idx', s')"
      by (simp only: index_employees_step[OF t])
    from Cons.IH(1)[OF r] show ?case by (auto simp: dom_update) }
  { case 2
    then obtain d s1 where t: "transform_employee_etl emp s = (Inr d, s1)"
      by (auto simp: m_bind_Inr)
    from 2 have r: "index_employees emps (AList.update (get emp ''emp_no'') d idx) s1 = (Inr idx', s')"
      by (simp only: index_employees_step[OF t])
    from Cons.IH(2)[OF r] show ?case by (simp add: distinct_update) }
  { case 3
    then obtain d s1 where t: "transform_employee_etl emp s = (Inr d, s1)"
      by (auto simp: m_bind_Inr)
    from 3 have r: "index_employees emps (AList.update (get emp ''emp_no'') d idx) s1 = (Inr idx', s')"
      by (simp only: index_employees_step[OF t])
    show ?case
    proof (intro allI impI)
      fix k assume k: "k \<in> (\<lambda>r. get r ''emp_no'') ` set (emp # emps)"
      show "\<exists>d s1 s2. map_of idx' k = Some d
              \<and> transform_employee_etl (last (filter (\<lambda>r. get r ''emp_no'' = k) (emp # emps))) s1
                  = (Inr d, s2)"
      proof (cases "k \<in> (\<lambda>r. get r ''emp_no'') ` set emps")
        case True
        then have "filter (\<lambda>r. get r ''emp_no'' = k) emps \<noteq> []"
          by (auto simp: filter_empty_conv)
        then have "last (filter (\<lambda>r. get r ''emp_no'' = k) (emp # emps))
                 = last (filter (\<lambda>r. get r ''emp_no'' = k) emps)"
          by simp
        with Cons.IH(3)[OF r] True show ?thesis by auto
      next
        case False
        with k have ke: "k = get emp ''emp_no''" by auto
        from False have "filter (\<lambda>r. get r ''emp_no'' = k) emps = []"
          by (auto simp: filter_empty_conv)
        with ke have l: "last (filter (\<lambda>r. get r ''emp_no'' = k) (emp # emps)) = emp" by simp
        from Cons.IH(4)[OF r] False have "map_of idx' k = Some d"
          by (simp add: ke update_conv')
        with t l show ?thesis by auto
      qed
    qed }
  { case 4
    then obtain d s1 where t: "transform_employee_etl emp s = (Inr d, s1)"
      by (auto simp: m_bind_Inr)
    from 4 have r: "index_employees emps (AList.update (get emp ''emp_no'') d idx) s1 = (Inr idx', s')"
      by (simp only: index_employees_step[OF t])
    from Cons.IH(4)[OF r] show ?case by (auto simp: update_conv') }
qed


lemma append_to_emp_no:
  assumes "append_to field x d s = (Inr d', s')" and "field \<noteq> ''emp_no''"
  shows "doc_field d' ''emp_no'' = doc_field d ''emp_no''"
  using assms unfolding append_to_def
  by (elim m_bind_Inr_D)
     (auto simp: doc_getitem_def m_defs doc_field_def update_conv'
       split: doc.splits option.splits)

lemma embed_rows_Inr:
  assumes "embed_rows field f msg rs idx s = (Inr idx', s')" and "field \<noteq> ''emp_no''"
  shows "map fst idx' = map fst idx \<and> (keyed idx \<longrightarrow> keyed idx')"
  using assms(1)
proof (induction rs arbitrary: idx s)
  case Nil
  then show ?case by (simp add: m_return_def)
next
  case (Cons r rs)
  show ?case
  proof (cases "map_of idx (get r ''emp_no'')")
    case None
    with Cons.prems obtain s1 where
      "embed_rows field f msg rs idx s1 = (Inr idx', s')"
      by (auto simp: Let_def m_bind_Inr)
    from Cons.IH[OF this] show ?thesis .
  next
    case (Some d)
    with Cons.prems obtain x d' sa sb where
      a: "append_to field x d sa = (Inr d', sb)"
      and rest: "embed_rows field f msg rs (AList.update (get r ''emp_no'') d' idx) sb
                   = (Inr idx', s')"
      by (auto simp: Let_def m_bind_Inr)
    from Some have "get r ''emp_no'' \<in> fst ` set idx" by (rule map_of_SomeD[THEN imageI, of _ _ _ fst, simplified])
    then have keys: "map fst (AList.update (get r ''emp_no'') d' idx) = map fst idx"
      by (simp add: update_keys)
    have "keyed (AList.update (get r ''emp_no'') d' idx)" if "keyed idx"
      using that Some append_to_emp_no[OF a assms(2)]
      by (auto simp: keyed_def update_conv')
    with Cons.IH[OF rest] keys show ?thesis by auto
  qed
qed

lemma etl_transform_Inr:
  assumes "etl_transform data s = (Inr out, s')"
  obtains idx0 idx s0 where "index_employees (employees_data data) [] s = (Inr idx0, s0)"
    and "map fst idx = map fst idx0" and "keyed idx0 \<longrightarrow> keyed idx"
    and "employees_out out = map snd idx"
proof -
  from assms have "m_bind (index_employees (employees_data data) []) (\<lambda>employees.
        m_bind (embed_rows ''titles'' transform_title
                  ''Employee emp_no {emp_no} not found for title record.''
                  (titles_data data) employees) (\<lambda>employees.
        m_bind (embed_rows ''salaries'' transform_salary
                  ''Employee emp_no {emp_no} not found for salary record.''
                  (salaries_data data) employees) (\<lambda>employees.
        m_bind (embed_rows ''departments'' transform_department_assignment
                  ''Employee emp_no {emp_no} not found for department assignment.''
                  (dept_emp_data data) employees) (\<lambda>employees.
        m_bind (for_append transform_department (departments_data data)) (\<lambda>departments.
        m_bind (for_append transform_dept_manager (dept_manager_data data)) (\<lambda>dept_managers.
        m_return \<lparr>employees_out = map snd employees, departments_out = departments,
                  dept_manager_out = dept_managers\<rparr>)))))) s = (Inr out, s')"
    unfolding etl_transform_def by (rule m_try_reraise_Inr)
  then obtain idx0 idx1 idx2 idx3 s0 s1 s2 s3 where
    i0: "index_employees (employees_data data) [] s = (Inr idx0, s0)"
    and e1: "embed_rows ''titles'' transform_title
                  ''Employee emp_no {emp_no} not found for title record.''
                  (titles_data data) idx0 s0 = (Inr idx1, s1)"
    and e2: "embed_rows ''salaries'' transform_salary
                  ''Employee emp_no {emp_no} not found for salary record.''
                  (salaries_data data) idx1 s1 = (Inr idx2, s2)"
    and e3: "embed_rows ''departments'' transform_department_assignment
                  ''Employee emp_no {emp_no} not found for department assignment.''
                  (dept_emp_data data) idx2 s2 = (Inr idx3, s3)"
    and out: "employees_out out = map snd idx3"
    by (elim m_bind_Inr_D) (auto simp: m_return_def)
  from embed_rows_Inr[OF e1] have 1: "map fst idx1 = map fst idx0" "keyed idx0 \<Longrightarrow> keyed idx1"
    by simp_all
  from embed_rows_Inr[OF e2] have 2: "map fst idx2 = map fst idx1" "keyed idx1 \<Longrightarrow> keyed idx2"
    by simp_all
  from embed_rows_Inr[OF e3] have 3: "map fst idx3 = map fst idx2" "keyed idx2 \<Longrightarrow> keyed idx3"
    by simp_all
  show thesis
  proof (rule that[OF i0 _ _ out])
    show "map fst idx3 = map fst idx0" using 1(1) 2(1) 3(1) by simp
    show "keyed idx0 \<longrightarrow> keyed idx3" using 1(2) 2(2) 3(2) by blast
  qed
qed

lemma keyed_fields:
  assumes "keyed idx" and "distinct (map fst idx)"
  shows "map (\<lambda>d. doc_field d ''emp_no'') (map snd idx) = map (\<lambda>k. Some (Val k)) (map fst idx)"
proof -
  have "doc_field d ''emp_no'' = Some (Val k)" if "(k, d) \<in> set idx" for k d
    using that assms by (auto simp: keyed_def)
  then show ?thesis by (auto simp: map_eq_conv)
qed

lemma index_employees_keyed:
  assumes "index_employees rows [] s = (Inr idx, s')"
  shows "keyed idx"
  unfolding keyed_def
proof (intro allI impI)
  fix k d assume m: "map_of idx k = Some d"
  then have "k \<in> fst ` set idx" by (rule map_of_SomeD[THEN imageI, of _ _ _ fst, simplified])
  with index_employees_Inr(1)[OF assms] have k: "k \<in> (\<lambda>r. get r ''emp_no'') ` set rows" by simp
  with index_employees_Inr(3)[OF assms] m obtain s1 s2 where
    t: "transform_employee_etl (last (filter (\<lambda>r. get r ''emp_no'' = k) rows)) s1 = (Inr d, s2)"
    by auto
  from k have "filter (\<lambda>r. get r ''emp_no'' = k) rows \<noteq> []" by (auto simp: filter_empty_conv)
  from last_in_set[OF this] have "get (last (filter (\<lambda>r. get r ''emp_no'' = k) rows)) ''emp_no'' = k"
    by simp
  with transform_employee_etl_emp_no[OF t] show "doc_field d ''emp_no'' = Some (Val k)" by simp
qed


lemma append_to_shaped:
  assumes "shaped d" and "field \<in> {''titles'', ''salaries'', ''departments''}"
  shows "\<exists>d'. append_to field x d s = (Inr d', s) \<and> shaped d'"
  using assms
  by (auto simp: shaped_def append_to_def doc_getitem_def m_defs update_conv')

lemma for_append_returns:
  assumes "\<And>x s. \<exists>y s'. f x s = (Inr y, s')"
  shows "\<exists>ys s'. for_append f xs s = (Inr ys, s')"
proof (induction xs arbitrary: s)
  case Nil
  then show ?case by (simp add: m_return_def)
next
  case (Cons x xs)
  from assms obtain y s1 where "f x s = (Inr y, s1)" by blast
  moreover from Cons[of s1] obtain ys s2 where "for_append f xs s1 = (Inr ys, s2)" by blast
  ultimately show ?case by (simp add: m_bind_def m_return_def)
qed

lemma transform_title_returns: "\<exists>y s'. transform_title r s = (Inr y, s')"
proof -
  obtain a s1 where a: "transform_date (get r ''from_date'') s = (Inr a, s1)"
    using transform_date_returns by blast
  obtain b s2 where b: "transform_date (get r ''to_date'') s1 = (Inr b, s2)"
    using transform_date_returns by blast
  show ?thesis by (simp add: transform_title_def m_bind_def a b m_return_def)
qed

lemma transform_salary_returns: "\<exists>y s'. transform_salary r s = (Inr y, s')"
proof -
  obtain a s1 where a: "transform_date (get r ''from_date'') s = (Inr a, s1)"
    using transform_date_returns by blast
  obtain b s2 where b: "transform_date (get r ''to_date'') s1 = (Inr b, s2)"
    using transform_date_returns by blast
  show ?thesis by (simp add: transform_salary_def m_bind_def a b m_return_def)
qed

lemma transform_department_assignment_returns:
  "\<exists>y s'. transform_department_assignment r s = (Inr y, s')"
proof -
  obtain a s1 where a: "transform_date (get r ''from_date'') s = (Inr a, s1)"
    using transform_date_returns by blast
  obtain b s2 where b: "transform_date (get r ''to_date'') s1 = (Inr b, s2)"
    using transform_date_returns by blast
  show ?thesis by (simp add: transform_department_assignment_def m_bind_def a b m_return_def)
qed

lemma transform_dept_manager_returns: "\<exists>y s'. transform_dept_manager r s = (Inr y, s')"
proof -
  obtain a s1 where a: "transform_date (get r ''from_date'') s = (Inr a, s1)"
    using transform_date_returns by blast
  obtain b s2 where b: "transform_date (get r ''to_date'') s1 = (Inr b, s2)"
    using transform_date_returns by blast
  show ?thesis by (simp add: transform_dept_manager_def m_bind_def a b m_return_def)
qed

lemma transform_department_returns: "\<exists>y s'. transform_department r s = (Inr y, s')"
  by (simp add: transform_department_def m_return_def)

lemma transform_employee_etl_shaped:
  "transform_employee_etl r s = (Inr d, s') \<Longrightarrow> shaped d"
  by (drule transform_employee_etl_Inr) (auto simp: shaped_def)

lemma all_shaped_update: "all_shaped idx \<Longrightarrow> shaped d \<Longrightarrow> all_shaped (AList.update k d idx)"
  by (auto simp: all_shaped_def update_conv')

lemma index_employees_returns:
  assumes "all_shaped idx"
  shows "\<exists>idx' s'. index_employees rows idx s = (Inr idx', s') \<and> all_shaped idx'"
  using assms
proof (induction rows arbitrary: idx s)
  case Nil
  then show ?case by (simp add: m_return_def)
next
  case (Cons emp emps)
  obtain d s1 where t: "transform_employee_etl emp s = (Inr d, s1)"
    using transform_employee_etl_returns by blast
  from Cons.prems transform_employee_etl_shaped[OF t]
  have "all_shaped (AList.update (get emp ''emp_no'') d idx)" by (rule all_shaped_update)
  from Cons.IH[OF this] show ?case unfolding index_employees_step[OF t] .
qed

lemma embed_rows_returns:
  assumes "all_shaped idx" and "field \<in> {''titles'', ''salaries'', ''departments''}"
    and "\<And>r s. \<exists>x s'. f r s = (Inr x, s')"
  shows "\<exists>idx' s'. embed_rows field f msg rs idx s = (Inr idx', s') \<and> all_shaped idx'"
  using assms(1)
proof (induction rs arbitrary: idx s)
  case Nil
  then show ?case by (simp add: m_return_def)
next
  case (Cons r rs)
  show ?case
  proof (cases "map_of idx (get r ''emp_no'')")
    case None
    with Cons.IH[OF Cons.prems] show ?thesis
      by (simp add: Let_def m_bind_def logging_def)
  next
    case (Some d)
    with Cons.prems have "shaped d" by (auto simp: all_shaped_def)
    obtain x s1 where fx: "f r s = (Inr x, s1)" using assms(3) by blast
    from append_to_shaped[OF \<open>shaped d\<close> assms(2)] obtain d' where
      a: "append_to field x d s1 = (Inr d', s1)" and "shaped d'" by blast
    from Cons.prems \<open>shaped d'\<close> have "all_shaped (AList.update (get r ''emp_no'') d' idx)"
      by (rule all_shaped_update)
    from Cons.IH[OF this, of s1] Some fx a show ?thesis
      by (simp add: Let_def m_bind_def)
  qed
qed

lemma etl_transform_returns: "\<exists>out s'. etl_transform data s = (Inr out, s')"
proof -
  have "all_shaped []" by (simp add: all_shaped_def)
  from index_employees_returns[OF this] obtain idx0 s0 where
    i0: "index_employees (employees_data data) [] s = (Inr idx0, s0)" and "all_shaped idx0"
    by blast
  from embed_rows_returns[OF \<open>all_shaped idx0\<close>, of "''titles''" transform_title]
    transform_title_returns
  obtain idx1 s1 where
    e1: "embed_rows ''titles'' transform_title
                  ''Employee emp_no {emp_no} not found for title record.''
                  (titles_data data) idx0 s0 = (Inr idx1, s1)" and "all_shaped idx1"
    by (metis insertI1)
  from embed_rows_returns[OF \<open>all_shaped idx1\<close>, of "''salaries''" transform_salary]
    transform_salary_returns
  obtain idx2 s2 where
    e2: "embed_rows ''salaries'' transform_salary
                  ''Employee emp_no {emp_no} not found for salary record.''
                  (salaries_data data) idx1 s1 = (Inr idx2, s2)" and "all_shaped idx2"
    by (metis insertI1 insertI2)
  from embed_rows_returns[OF \<open>all_shaped idx2\<close>, of "''departments''"
      transform_department_assignment]
    transform_department_assignment_returns
  obtain idx3 s3 where
    e3: "embed_rows ''departments'' transform_department_assignment
                  ''Employee emp_no {emp_no} not found for department assignment.''
                  (dept_emp_data data) idx2 s2 = (Inr idx3, s3)"
    by (metis insertI1 insertI2)
  from for_append_returns[of transform_department, OF transform_department_returns]
  obtain ds s4 where d: "for_append transform_department (departments_data data) s3 = (Inr ds, s4)"
    by blast
  from for_append_returns[of transform_dept_manager, OF transform_dept_manager_returns]
  obtain ms s5 where m: "for_append transform_dept_manager (dept_manager_data data) s4 = (Inr ms, s5)"
    by blast
  show ?thesis
    by (simp add: etl_transform_def m_try_def m_bind_def i0 e1 e2 e3 d m m_return_def)
qed



text \<open>
  C9 (amended). \<open>ETLPipeline.transform\<close> of pipeline.py always returns, with exactly one
  employee document per distinct \<open>emp_no\<close> of the source rows; in its employee index a
  later row of an \<open>emp_no\<close> replaces the earlier one, so the entry of each \<open>emp_no\<close> is the
  transformation of the last row that has it. \<open>main\<close> of DB\_Migration/pipeline.py keeps
  no such index: a row that transforms is appended each time it occurs, so two rows of
  one \<open>emp_no\<close> give two documents.
\<close>

theorem C9_documents_per_emp_no:
  "(\<exists>out s'. etl_transform data s = (Inr out, s')
       \<and> (\<exists>ks. distinct ks \<and> set ks = (\<lambda>r. get r ''emp_no'') ` set (employees_data data)
             \<and> map (\<lambda>d. doc_field d ''emp_no'') (employees_out out)
                 = map (\<lambda>k. Some (Val k)) ks))
   \<and> (index_employees rows [] s = (Inr idx, s1) \<longrightarrow>
         distinct (map fst idx) \<and> fst ` set idx = (\<lambda>r. get r ''emp_no'') ` set rows
       \<and> (\<forall>k\<in>fst ` set idx. \<exists>d sa sb. map_of idx k = Some d
            \<and> transform_employee_etl (last (filter (\<lambda>r. get r ''emp_no'' = k) rows)) sa
                = (Inr d, sb)))
   \<and> (map_of emp ''emp_no'' = Some emp_no
       \<and> (\<forall>s. transform_employee emp (get_rows dept_emp_by_emp emp_no)
                 (get_rows dept_manager_by_emp emp_no) (get_rows salaries_by_emp emp_no)
                 (get_rows titles_by_emp emp_no) lookup s = (Inr d, s))
      \<longrightarrow> employee_loop dept_emp_by_emp dept_manager_by_emp salaries_by_emp titles_by_emp
            lookup (emp # emp # emps) docs s
        = employee_loop dept_emp_by_emp dept_manager_by_emp salaries_by_emp titles_by_emp
            lookup emps (docs @ [d, d]) s)"
proof (intro conjI impI)
  obtain out s' where t: "etl_transform data s = (Inr out, s')"
    using etl_transform_returns by blast
  from t obtain idx0 idx s0 where
    i0: "index_employees (employees_data data) [] s = (Inr idx0, s0)"
    and keys: "map fst idx = map fst idx0" and k: "keyed idx0 \<longrightarrow> keyed idx"
    and out: "employees_out out = map snd idx"
    by (rule etl_transform_Inr) blast
  from index_employees_Inr(1,2)[OF i0] have d0: "distinct (map fst idx0)"
    and s0: "set (map fst idx0) = (\<lambda>r. get r ''emp_no'') ` set (employees_data data)"
    by simp_all
  from index_employees_keyed[OF i0] k have "keyed idx" by simp
  from keyed_fields[OF this] d0 keys
  have "map (\<lambda>d. doc_field d ''emp_no'') (employees_out out)
          = map (\<lambda>k. Some (Val k)) (map fst idx0)"
    by (simp add: out)
  then have "\<exists>ks. distinct ks \<and> set ks = (\<lambda>r. get r ''emp_no'') ` set (employees_data data)
             \<and> map (\<lambda>d. doc_field d ''emp_no'') (employees_out out)
                 = map (\<lambda>k. Some (Val k)) ks"
    using d0 s0 by (intro exI[of _ "map fst idx0"]) simp
  with t
  show "\<exists>out s'. etl_transform data s = (Inr out, s')
       \<and> (\<exists>ks. distinct ks \<and> set ks = (\<lambda>r. get r ''emp_no'') ` set (employees_data data)
             \<and> map (\<lambda>d. doc_field d ''emp_no'') (employees_out out)
                 = map (\<lambda>k. Some (Val k)) ks)"
    by (intro exI[of _ out] exI[of _ s'] conjI)
next
  assume i: "index_employees rows [] s = (Inr idx, s1)"
  from index_employees_Inr(2)[OF i] show "distinct (map fst idx)" by simp
  from index_employees_Inr(1)[OF i]
  show e: "fst ` set idx = (\<lambda>r. get r ''emp_no'') ` set rows" by simp
  from index_employees_Inr(3)[OF i] e
  show "\<forall>k\<in>fst ` set idx. \<exists>d sa sb. map_of idx k = Some d
            \<and> transform_employee_etl (last (filter (\<lambda>r. get r ''emp_no'' = k) rows)) sa
                = (Inr d, sb)"
    by blast
next
  assume a: "map_of emp ''emp_no'' = Some emp_no
       \<and> (\<forall>s. transform_employee emp (get_rows dept_emp_by_emp emp_no)
                 (get_rows dept_manager_by_emp emp_no) (get_rows salaries_by_emp emp_no)
                 (get_rows titles_by_emp emp_no) lookup s = (Inr d, s))"
  then have e: "map_of emp ''emp_no'' = Some emp_no"
    and t: "\<And>s. transform_employee emp (get_rows dept_emp_by_emp emp_no)
                 (get_rows dept_manager_by_emp emp_no) (get_rows salaries_by_emp emp_no)
                 (get_rows titles_by_emp emp_no) lookup s = (Inr d, s)"
    by simp_all
  show "employee_loop dept_emp_by_emp dept_manager_by_emp salaries_by_emp titles_by_emp
            lookup (emp # emp # emps) docs s
        = employee_loop dept_emp_by_emp dept_manager_by_emp salaries_by_emp titles_by_emp
            lookup emps (docs @ [d, d]) s"
    unfolding employee_loop_step[OF e] t by simp
qed

lemmas etl_eval = etl_transform_def index_employees.simps embed_rows.simps
  transform_employee_etl_def transform_date_def doc_getitem_def key_of_def get_def
  get_default_def strptime_def is_digit_def digit_val_def days_in_month_def is_leap_def
  m_defs emit_def init_state_def

theorem C9_documents_per_emp_no_witness:
  "index_employees [sample_employee_early, sample_employee_late] [] init_state
     = (Inr [(PInt 10003,
              Dict [(''emp_no'', Val (PInt 10003)),
                    (''birth_date'', Val (PDateTime 1959 12 3 0 0 0)),
                    (''first_name'', Val (PStr ''Parto'')),
                    (''last_name'', Val (PStr ''Bamford-Koblick'')),
                    (''gender'', Val (PStr ''M'')),
                    (''hire_date'', Val (PDateTime 1986 8 28 0 0 0)),
                    (''titles'', Lst []), (''salaries'', Lst []), (''departments'', Lst [])])],
        init_state)
   \<and> etl_transform \<lparr>employees_data = [sample_employee_early, sample_employee_late],
         titles_data = [], salaries_data = [], dept_emp_data = [], departments_data = [],
         dept_manager_data = []\<rparr> init_state
     = (Inr \<lparr>employees_out =
               [Dict [(''emp_no'', Val (PInt 10003)),
                      (''birth_date'', Val (PDateTime 1959 12 3 0 0 0)),
                      (''first_name'', Val (PStr ''Parto'')),
                      (''last_name'', Val (PStr ''Bamford-Koblick'')),
                      (''gender'', Val (PStr ''M'')),
                      (''hire_date'', Val (PDateTime 1986 8 28 0 0 0)),
                      (''titles'', Lst []), (''salaries'', Lst []), (''departments'', Lst [])]],
             departments_out = [], dept_manager_out = []\<rparr>,
        init_state)
   \<and> map_of sample_employee ''emp_no'' = Some (PInt 10001)
   \<and> employee_loop Map.empty Map.empty Map.empty Map.empty Map.empty
        [sample_employee, sample_employee] [] init_state
     = (Inr [Dict [(''emp_no'', Val (PInt 10001)), (''birth_date'', Val (PDate 1953 9 2)),
                   (''first_name'', Val (PStr ''Georgi'')), (''last_name'', Val (PStr ''Facello'')),
                   (''gender'', Val (PStr ''M'')),
                   (''hire_date'', Val (PDateTime 1986 6 26 0 0 0)),
                   (''departments'', Lst []), (''salaries'', Lst []), (''titles'', Lst []),
                   (''management'', Val PNone)],
             Dict [(''emp_no'', Val (PInt 10001)), (''birth_date'', Val (PDate 1953 9 2)),
                   (''first_name'', Val (PStr ''Georgi'')), (''last_name'', Val (PStr ''Facello'')),
                   (''gender'', Val (PStr ''M'')),
                   (''hire_date'', Val (PDateTime 1986 6 26 0 0 0)),
                   (''departments'', Lst []), (''salaries'', Lst []), (''titles'', Lst []),
                   (''management'', Val PNone)]],
        init_state)"
  using C9_documents_per_emp_no[where
      data = "\<lparr>employees_data = [sample_employee_early, sample_employee_late],
         titles_data = [], salaries_data = [], dept_emp_data = [], departments_data = [],
         dept_manager_data = []\<rparr>"
      and s = init_state and rows = "[sample_employee_early, sample_employee_late]"
      and idx = "[(PInt 10003,
              Dict [(''emp_no'', Val (PInt 10003)),
                    (''birth_date'', Val (PDateTime 1959 12 3 0 0 0)),
                    (''first_name'', Val (PStr ''Parto'')),
                    (''last_name'', Val (PStr ''Bamford-Koblick'')),
                    (''gender'', Val (PStr ''M'')),
                    (''hire_date'', Val (PDateTime 1986 8 28 0 0 0)),
                    (''titles'', Lst []), (''salaries'', Lst []), (''departments'', Lst [])])]"
      and ?s1.0 = init_state and emp = sample_employee and emp_no = "PInt 10001"
      and dept_emp_by_emp = Map.empty and dept_manager_by_emp = Map.empty
      and salaries_by_emp = Map.empty and titles_by_emp = Map.empty and lookup = Map.empty
      and emps = "[]" and docs = "[]"
      and d = "Dict [(''emp_no'', Val (PInt 10001)), (''birth_date'', Val (PDate 1953 9 2)),
                   (''first_name'', Val (PStr ''Georgi'')), (''last_name'', Val (PStr ''Facello'')),
                   (''gender'', Val (PStr ''M'')),
                   (''hire_date'', Val (PDateTime 1986 6 26 0 0 0)),
                   (''departments'', Lst []), (''salaries'', Lst []), (''titles'', Lst []),
                   (''management'', Val PNone)]"]
  by (simp add: etl_eval eval_defs sample_employee_def sample_employee_early_def
      sample_employee_late_def)

text \<open>
  C9 as stated fails: for a source sequence holding the same employee row twice, the loop
  of \<open>main\<close> produces two documents of the one \<open>emp_no\<close>.
\<close>

theorem C9_counterexample:
  "employee_loop Map.empty Map.empty Map.empty Map.empty Map.empty
        [sample_employee, sample_employee] [] init_state
     = (Inr [Dict [(''emp_no'', Val (PInt 10001)), (''birth_date'', Val (PDate 1953 9 2)),
                   (''first_name'', Val (PStr ''Georgi'')), (''last_name'', Val (PStr ''Facello'')),
                   (''gender'', Val (PStr ''M'')),
                   (''hire_date'', Val (PDateTime 1986 6 26 0 0 0)),
                   (''departments'', Lst []), (''salaries'', Lst []), (''titles'', Lst []),
                   (''management'', Val PNone)],
             Dict [(''emp_no'', Val (PInt 10001)), (''birth_date'', Val (PDate 1953 9 2)),
                   (''first_name'', Val (PStr ''Georgi'')), (''last_name'', Val (PStr ''Facello'')),
                   (''gender'', Val (PStr ''M'')),
                   (''hire_date'', Val (PDateTime 1986 6 26 0 0 0)),
                   (''departments'', Lst []), (''salaries'', Lst []), (''titles'', Lst []),
                   (''management'', Val PNone)]],
        init_state)"
  by (simp add: eval_defs m_defs sample_employee_def)

section \<open>The exit status of a run\<close>


lemma kc_return: "keeps_connection (m_return x)"
  by (simp add: keeps_connection_def m_return_def)

lemma kc_raise: "keeps_connection (m_raise e)"
  by (simp add: keeps_connection_def m_raise_def)

lemma kc_logging: "keeps_connection (logging l msg args)"
  by (simp add: keeps_connection_def logging_def emit_def)

lemma kc_call: "keeps_connection (call world ev)"
  by (simp add: keeps_connection_def call_def emit_def)

lemma kc_set_connection: "keeps_connection set_connection"
  by (simp add: keeps_connection_def set_connection_def)

lemma kc_bind: "keeps_connection c \<Longrightarrow> (\<And>x. keeps_connection (f x)) \<Longrightarrow> keeps_connection (m_bind c f)"
  unfolding keeps_connection_def m_bind_def
  by (auto split: prod.splits sum.splits)

lemma kc_try: "keeps_connection c \<Longrightarrow> (\<And>e. keeps_connection (h e)) \<Longrightarrow> keeps_connection (m_try c h)"
  unfolding keeps_connection_def m_try_def
  by (auto split: prod.splits sum.splits if_splits)

lemma kc_finally: "keeps_connection c \<Longrightarrow> keeps_connection f \<Longrightarrow> keeps_connection (m_finally c f)"
  unfolding keeps_connection_def m_finally_def
  by (auto split: prod.splits sum.splits)

lemma kc_if: "keeps_connection c \<Longrightarrow> keeps_connection d \<Longrightarrow> keeps_connection (if b then c else d)"
  by simp

lemma kc_for_append: "(\<And>x. keeps_connection (f x)) \<Longrightarrow> keeps_connection (for_append f xs)"
  by (induction xs) (auto intro!: kc_bind kc_return)

lemma kc_for_each: "(\<And>x. keeps_connection (f x)) \<Longrightarrow> keeps_connection (for_each f xs)"
  by (induction xs) (auto intro!: kc_bind kc_return)

lemma kc_getitem: "keeps_connection (getitem r k)"
  by (auto simp: getitem_def intro: kc_return kc_raise split: option.splits)

lemma kc_strptime: "keeps_connection (strptime v)"
  unfolding keeps_connection_def using strptime_state by (metis prod.collapse)

lemma kc_py_range: "keeps_connection (py_range a b c)"
  by (auto simp: py_range_def intro: kc_return kc_raise)

lemmas kc_intros = kc_bind kc_try kc_finally kc_return kc_raise kc_logging kc_call
  kc_set_connection kc_getitem kc_strptime kc_for_append kc_for_each kc_if kc_py_range

lemma kc_convert_date: "keeps_connection (convert_date v)"
  unfolding convert_date_def by (intro kc_intros)

lemma kc_department_entry: "keeps_connection (department_entry lookup de)"
  unfolding department_entry_def Let_def by (intro kc_intros kc_convert_date)

lemma kc_salary_entry: "keeps_connection (salary_entry sal)"
  unfolding salary_entry_def by (intro kc_intros kc_convert_date)

lemma kc_title_entry: "keeps_connection (title_entry tit)"
  unfolding title_entry_def by (intro kc_intros kc_convert_date)

lemma kc_management_entry: "keeps_connection (management_entry mgrs)"
  unfolding management_entry_def by (cases mgrs) (auto intro!: kc_intros kc_convert_date)

lemma kc_transform_employee:
  "keeps_connection (transform_employee employee dept_emps dept_managers salaries titles lookup)"
  unfolding transform_employee_def
  by (intro kc_intros kc_convert_date kc_department_entry kc_salary_entry kc_title_entry
      kc_management_entry)

lemma kc_extract_query: "keeps_connection (extract_query world query)"
proof -
  have "keeps_connection (\<lambda>s. if connection s then call world (Execute query) s
                               else m_raise AttributeError s)"
    by (simp add: keeps_connection_def call_def emit_def)
  then show ?thesis unfolding extract_query_def by (intro kc_intros)
qed

lemma kc_MongoLoader_init: "keeps_connection (MongoLoader_init world)"
  unfolding MongoLoader_init_def by (intro kc_intros)

lemma kc_load_handler:
  \<open>keeps_connection (case exc of
          BulkWriteError details \<Rightarrow>
            m_bind (logging ERROR ''Bulk write error: %s'' [AExn exc]) (\<lambda>_. m_raise exc)
        | _ \<Rightarrow>
            m_bind (logging ERROR ''Error loading documents into collection "%s": %s''
                      [AStr collection_name, AExn exc])
              (\<lambda>_. m_raise exc))\<close>
  by (cases exc) (auto intro!: kc_intros)

lemma kc_load_collection: "keeps_connection (load_collection world name documents batch_size)"
  unfolding load_collection_def by (intro kc_intros kc_load_handler)

lemma kc_departments_lookup_of: "keeps_connection (departments_lookup_of depts lookup)"
  by (induction depts arbitrary: lookup) (auto intro!: kc_intros)

lemma kc_by_emp: "keeps_connection (by_emp recs idx)"
  by (induction recs arbitrary: idx) (auto intro!: kc_intros)

lemma kc_employee_loop: "keeps_connection (employee_loop i1 i2 i3 i4 lookup emps docs)"
  by (induction emps arbitrary: docs) (auto intro!: kc_intros kc_transform_employee)


lemma oE_call: "only_Exceptions (call world ev)"
  by (auto simp: only_Exceptions_def call_def raised_def is_Exception_def
      split: sum.splits driver_error.splits)

lemma oE_set_connection: "only_Exceptions set_connection"
  by (simp add: only_Exceptions_def set_connection_def)

lemma oE_py_range: "only_Exceptions (py_range a b c)"
  by (auto simp: py_range_def is_Exception_def intro: oE_return oE_raise)

lemma oE_for_each: "(\<And>x. only_Exceptions (f x)) \<Longrightarrow> only_Exceptions (for_each f xs)"
  by (induction xs) (auto intro!: oE_bind oE_return)

lemma oE_finally: "only_Exceptions c \<Longrightarrow> only_Exceptions f \<Longrightarrow> only_Exceptions (m_finally c f)"
  unfolding only_Exceptions_def m_finally_def
  by (fastforce split: prod.splits sum.splits)

lemmas oE_more = oE_intros oE_call oE_set_connection oE_py_range oE_for_each oE_finally

lemma oE_connect: "only_Exceptions (connect world)"
  unfolding connect_def by (intro oE_more)

lemma oE_extract_query: "only_Exceptions (extract_query world query)"
proof -
  have "only_Exceptions (\<lambda>s. if connection s then call world (Execute query) s
                               else m_raise AttributeError s)"
    using oE_call[of world "Execute query"]
    by (auto simp: only_Exceptions_def m_raise_def is_Exception_def split: if_splits)
  then show ?thesis unfolding extract_query_def by (intro oE_more)
qed

lemma oE_MongoLoader_init: "only_Exceptions (MongoLoader_init world)"
  unfolding MongoLoader_init_def by (intro oE_more)

lemma oE_load_handler:
  \<open>is_Exception exc \<Longrightarrow> only_Exceptions (case exc of
          BulkWriteError details \<Rightarrow>
            m_bind (logging ERROR ''Bulk write error: %s'' [AExn exc]) (\<lambda>_. m_raise exc)
        | _ \<Rightarrow>
            m_bind (logging ERROR ''Error loading documents into collection "%s": %s''
                      [AStr collection_name, AExn exc])
              (\<lambda>_. m_raise exc))\<close>
  by (cases exc) (auto intro!: oE_more)

lemma oE_load_collection: "only_Exceptions (load_collection world name documents batch_size)"
  unfolding load_collection_def by (intro oE_more oE_load_handler)

lemma oE_departments_lookup_of: "only_Exceptions (departments_lookup_of depts lookup)"
  by (induction depts arbitrary: lookup) (auto intro!: oE_more)

lemma oE_by_emp: "only_Exceptions (by_emp recs idx)"
  by (induction recs arbitrary: idx) (auto intro!: oE_more)

lemma oE_employee_loop: "only_Exceptions (employee_loop i1 i2 i3 i4 lookup emps docs)"
  by (induction emps arbitrary: docs) (auto intro!: oE_more oE_transform_employee)

lemma oE_main_try: "only_Exceptions (main_try world)"
  unfolding main_try_def
  by (intro oE_more oE_connect oE_extract_query oE_MongoLoader_init oE_load_collection
      oE_departments_lookup_of oE_by_emp oE_employee_loop)

text \<open>A \<open>try\<close> block whose handler only logs returns.\<close>

lemma m_try_logged:
  assumes "only_Exceptions c"
  shows "\<exists>s1. m_try c (\<lambda>e. logging l msg (args e)) s = (Inr (), s1)
           \<and> (connection (snd (c s)) \<longrightarrow> connection s1)"
proof (cases "c s")
  case (Pair r s0)
  show ?thesis
  proof (cases r)
    case (Inl e)
    with Pair assms have "is_Exception e" by (auto simp: only_Exceptions_def)
    with Pair Inl show ?thesis by (simp add: m_try_def logging_def emit_def)
  next
    case (Inr u)
    with Pair show ?thesis by (simp add: m_try_def)
  qed
qed

lemma close_returns:
  assumes "\<forall>t. \<exists>rows. world t Close = Inr rows"
  shows "close world s =
           (Inr (), if connection s
                    then s\<lparr>trace := trace s @ [Close, Log INFO ''MySQL connection closed'' []]\<rparr>
                    else s)"
proof -
  from assms obtain rows where "world (trace s) Close = Inr rows" by blast
  then show ?thesis by (simp add: close_def m_defs emit_def)
qed

lemma main_returns:
  assumes "\<forall>t. \<exists>rows. world t Close = Inr rows"
  shows "fst (main world s) = Inr ()"
proof -
  from m_try_logged[OF oE_main_try, of world ERROR "''ETL pipeline failed: %s''"
      "\<lambda>e. [AExn e]" s]
  obtain s1 where "m_try (main_try world)
      (\<lambda>e. logging ERROR ''ETL pipeline failed: %s'' [AExn e]) s = (Inr (), s1)"
    by blast
  then show ?thesis by (simp add: main_def m_finally_def close_returns[where world = world, OF assms])
qed

lemma bind_connection:
  assumes "c s = (Inr x, s1)" and "connection s1" and "\<And>x. keeps_connection (f x)"
  shows "connection (snd (m_bind c f s))"
  using assms by (auto simp: m_bind_def keeps_connection_def)

lemma connect_ok:
  assumes "world (trace s) Connect = Inr r"
  shows "connect world s
       = (Inr (), s\<lparr>trace := trace s @ [Connect, Log INFO ''MySQL connection established'' []],
                     connection := True\<rparr>)"
  using assms by (simp add: connect_def m_defs emit_def set_connection_def)

lemma main_try_connection:
  assumes "world (trace s) Connect = Inr r"
  shows "connection (snd (main_try world s))"
  unfolding main_try_def
  by (rule bind_connection[where c = "connect world" and s = s, OF connect_ok[where world = world and s = s, OF assms]], simp)
     (intro kc_intros kc_extract_query kc_MongoLoader_init kc_load_collection
        kc_departments_lookup_of kc_by_emp kc_employee_loop)

lemma main_closes:
  assumes "world (trace s) Connect = Inr r" and "\<forall>t. \<exists>rows. world t Close = Inr rows"
  shows "\<exists>t. trace (snd (main world s)) = t @ [Close, Log INFO ''MySQL connection closed'' []]"
proof -
  from m_try_logged[OF oE_main_try, of world ERROR "''ETL pipeline failed: %s''"
      "\<lambda>e. [AExn e]" s] main_try_connection[where world = world and s = s, OF assms(1)]
  obtain s1 where "m_try (main_try world)
      (\<lambda>e. logging ERROR ''ETL pipeline failed: %s'' [AExn e]) s = (Inr (), s1)"
    and "connection s1"
    by blast
  then show ?thesis by (simp add: main_def m_finally_def close_returns[where world = world, OF assms(2)])
qed


lemma oE_connect_etl: "only_Exceptions (connect_etl world)"
  unfolding connect_etl_def by (intro oE_more)

lemma oE_fetch_data: "only_Exceptions (fetch_data world query)"
proof -
  have "only_Exceptions (\<lambda>s. if connection s then call world (Execute query) s
                               else m_raise AttributeError s)"
    using oE_call[of world "Execute query"]
    by (auto simp: only_Exceptions_def m_raise_def is_Exception_def split: if_splits)
  then show ?thesis unfolding fetch_data_def by (intro oE_more)
qed

lemma oE_close_etl: "only_Exceptions (close_etl world)"
proof -
  have "only_Exceptions (m_bind (call world Close)
          (\<lambda>_. logging INFO ''Closed MySQL connection.'' []))"
    by (intro oE_more)
  then show ?thesis
    by (auto simp: only_Exceptions_def close_etl_def m_return_def split: if_splits)
qed

lemma oE_etl_extract: "only_Exceptions (etl_extract world)"
  unfolding etl_extract_def by (intro oE_more oE_connect_etl oE_fetch_data oE_close_etl)

lemma kc_fetch_data: "keeps_connection (fetch_data world query)"
proof -
  have "keeps_connection (\<lambda>s. if connection s then call world (Execute query) s
                               else m_raise AttributeError s)"
    by (simp add: keeps_connection_def call_def emit_def)
  then show ?thesis unfolding fetch_data_def by (intro kc_intros)
qed

lemma connect_etl_ok:
  assumes "world (trace s) Connect = Inr r"
  shows "connect_etl world s
       = (Inr (), s\<lparr>trace := trace s @ [Connect, Log INFO ''Connected to MySQL database.'' []],
                     connection := True\<rparr>)"
  using assms by (simp add: connect_etl_def m_defs emit_def set_connection_def)

lemma close_etl_returns:
  assumes "\<forall>t. \<exists>rows. world t Close = Inr rows"
  shows "close_etl world s =
           (Inr (), if connection s
                    then s\<lparr>trace := trace s @ [Close, Log INFO ''Closed MySQL connection.'' []]\<rparr>
                    else s)"
proof -
  from assms obtain rows where "world (trace s) Close = Inr rows" by blast
  then show ?thesis by (simp add: close_etl_def m_defs emit_def)
qed

lemma try_connection:
  assumes "connection (snd (c s))" and "\<And>e. keeps_connection (h e)"
  shows "connection (snd (m_try c h s))"
  using assms by (auto simp: m_try_def keeps_connection_def split: prod.splits sum.splits)

lemma etl_extract_closes:
  assumes "world (trace s) Connect = Inr r" and "\<forall>t. \<exists>rows. world t Close = Inr rows"
  shows "\<exists>t. trace (snd (etl_extract world s))
           = t @ [Close, Log INFO ''Closed MySQL connection.'' []]"
proof -
  let ?body = "m_bind (connect_etl world) (\<lambda>_.
           m_bind (fetch_data world ''SELECT * FROM employees'') (\<lambda>employees_data.
           m_bind (fetch_data world ''SELECT * FROM titles'') (\<lambda>titles_data.
           m_bind (fetch_data world ''SELECT * FROM salaries'') (\<lambda>salaries_data.
           m_bind (fetch_data world ''SELECT * FROM dept_emp'') (\<lambda>dept_emp_data.
           m_bind (fetch_data world ''SELECT * FROM departments'') (\<lambda>departments_data.
           m_bind (fetch_data world ''SELECT * FROM dept_manager'') (\<lambda>dept_manager_data.
           m_return \<lparr>employees_data = employees_data, titles_data = titles_data,
                     salaries_data = salaries_data, dept_emp_data = dept_emp_data,
                     departments_data = departments_data,
                     dept_manager_data = dept_manager_data\<rparr>)))))))"
  let ?h = "\<lambda>e. m_bind (logging ERROR ''Error during extraction: {e}'' [AExn e])
             (\<lambda>_. m_raise e)"
  have b: "connection (snd (?body s))"
    by (rule bind_connection[where c = "connect_etl world" and s = s,
          OF connect_etl_ok[where world = world and s = s, OF assms(1)]], simp)
       (intro kc_intros kc_fetch_data)
  have "keeps_connection (?h e)" for e by (intro kc_intros)
  with b have "connection (snd (m_try ?body ?h s))" by (rule try_connection)
  then show ?thesis
    unfolding etl_extract_def m_finally_def
    by (auto simp: close_etl_returns[where world = world, OF assms(2)] split: prod.splits)
qed

lemma fetch_data_returns:
  assumes "\<forall>t. \<exists>rows. world t (Execute query) = Inr rows" and "connection s"
  shows "\<exists>rows s'. fetch_data world query s = (Inr rows, s') \<and> connection s'"
proof -
  from assms(1) obtain rows where "world (trace s) (Execute query) = Inr rows" by blast
  with assms(2) show ?thesis by (simp add: fetch_data_def m_defs emit_def)
qed

lemma etl_extract_returns:
  assumes H: "\<forall>t ev. (\<exists>c docs. ev = InsertMany c docs) \<or> (\<exists>rows. world t ev = Inr rows)"
  shows "\<exists>data s'. etl_extract world s = (Inr data, s')"
proof -
  from H have ex: "\<forall>t. \<exists>rows. world t (Execute q) = Inr rows" for q by blast
  from H have cl: "\<forall>t. \<exists>rows. world t Close = Inr rows" by blast
  from H obtain r where "world (trace s) Connect = Inr r" by blast
  from connect_etl_ok[where world = world and s = s, OF this] obtain s0 where
    c: "connect_etl world s = (Inr (), s0)" and c0: "connection s0" by simp
  from fetch_data_returns[where world = world, OF ex c0] obtain r1 s1 where
    f1: "fetch_data world ''SELECT * FROM employees'' s0 = (Inr r1, s1)" and c1: "connection s1"
    by blast
  from fetch_data_returns[where world = world, OF ex c1] obtain r2 s2 where
    f2: "fetch_data world ''SELECT * FROM titles'' s1 = (Inr r2, s2)" and c2: "connection s2"
    by blast
  from fetch_data_returns[where world = world, OF ex c2] obtain r3 s3 where
    f3: "fetch_data world ''SELECT * FROM salaries'' s2 = (Inr r3, s3)" and c3: "connection s3"
    by blast
  from fetch_data_returns[where world = world, OF ex c3] obtain r4 s4 where
    f4: "fetch_data world ''SELECT * FROM dept_emp'' s3 = (Inr r4, s4)" and c4: "connection s4"
    by blast
  from fetch_data_returns[where world = world, OF ex c4] obtain r5 s5 where
    f5: "fetch_data world ''SELECT * FROM departments'' s4 = (Inr r5, s5)" and c5: "connection s5"
    by blast
  from fetch_data_returns[where world = world, OF ex c5] obtain r6 s6 where
    f6: "fetch_data world ''SELECT * FROM dept_manager'' s5 = (Inr r6, s6)" and c6: "connection s6"
    by blast
  show ?thesis
    unfolding etl_extract_def m_finally_def
    by (simp add: m_try_def m_bind_def c f1 f2 f3 f4 f5 f6 m_return_def
        close_etl_returns[where world = world, OF cl])
qed

lemma insert_employees_total: "\<exists>s'. insert_employees world docs s = (Inr (), s')"
proof (cases "docs = []")
  case True
  then show ?thesis by (simp add: insert_employees_def logging_def)
next
  case False
  from insert_employees_returns[OF this] show ?thesis by blast
qed

lemma insert_departments_total: "\<exists>s'. insert_departments world docs s = (Inr (), s')"
proof (cases "docs = []")
  case True
  then show ?thesis by (simp add: insert_departments_def logging_def)
next
  case False
  from insert_departments_returns[OF this] show ?thesis by blast
qed

lemma insert_dept_managers_total: "\<exists>s'. insert_dept_managers world docs s = (Inr (), s')"
proof (cases "docs = []")
  case True
  then show ?thesis by (simp add: insert_dept_managers_def logging_def)
next
  case False
  from insert_dept_managers_returns[OF this] show ?thesis by blast
qed

lemma etl_load_returns:
  assumes "\<forall>t. \<exists>rows. world t MongoClose = Inr rows"
  shows "\<exists>s'. etl_load world td s = (Inr (), s')"
proof -
  obtain s1 where 1: "insert_departments world (departments_out td) s = (Inr (), s1)"
    using insert_departments_total by blast
  obtain s2 where 2: "insert_employees world (employees_out td) s1 = (Inr (), s2)"
    using insert_employees_total by blast
  obtain s3 where 3: "insert_dept_managers world (dept_manager_out td) s2 = (Inr (), s3)"
    using insert_dept_managers_total by blast
  from assms obtain rows where "world (trace s3) MongoClose = Inr rows" by blast
  then show ?thesis
    unfolding etl_load_def m_finally_def
    by (simp add: m_try_def m_bind_def 1 2 3 MongoDBLoader_close_def call_def logging_def)
qed

lemma MongoDBLoader_init_ok:
  assumes "world (trace s) MongoClient = Inr r"
  shows "MongoDBLoader_init world s
       = (Inr (), s\<lparr>trace := trace s @ [MongoClient, Log INFO ''Connected to MongoDB.'' []]\<rparr>)"
  using assms by (simp add: MongoDBLoader_init_def m_defs emit_def)

lemma etl_script_returns:
  assumes H: "\<forall>t ev. (\<exists>c docs. ev = InsertMany c docs) \<or> (\<exists>rows. world t ev = Inr rows)"
  shows "fst (etl_script world s) = Inr ()"
proof -
  from H obtain r where "world (trace s) MongoClient = Inr r" by blast
  note i = MongoDBLoader_init_ok[where world = world and s = s, OF this]
  let ?s1 = "s\<lparr>trace := trace s @ [MongoClient, Log INFO ''Connected to MongoDB.'' [],
                                      Log INFO ''ETL pipeline started.'' []]\<rparr>"
  from etl_extract_returns[where world = world, OF H] obtain data s2 where
    e: "etl_extract world ?s1 = (Inr data, s2)" by blast
  obtain out s3 where t: "etl_transform data s2 = (Inr out, s3)"
    using etl_transform_returns by blast
  from H have "\<forall>t. \<exists>rows. world t MongoClose = Inr rows" by blast
  from etl_load_returns[where world = world, OF this] obtain s4 where
    l: "etl_load world out s3 = (Inr (), s4)" by blast
  show ?thesis
    by (simp add: etl_script_def etl_run_def m_bind_def i logging_def emit_def m_try_def e t l)
qed

lemma etl_script_extraction_fails:
  assumes "world (trace s) MongoClient = Inr r0"
    and "etl_extract world
           (s\<lparr>trace := trace s @ [MongoClient, Log INFO ''Connected to MongoDB.'' [],
                                   Log INFO ''ETL pipeline started.'' []]\<rparr>) = (Inl e, s3)"
  shows "etl_script world s
       = (Inl (SystemExit 1),
          s3\<lparr>trace := trace s3 @ [Log ERROR ''ETL pipeline failed: {e}'' [AExn e]]\<rparr>)"
proof -
  note i = MongoDBLoader_init_ok[where world = world and s = s, OF assms(1)]
  from assms(2) oE_etl_extract[of world] have "is_Exception e"
    unfolding only_Exceptions_def by blast
  with assms(2) show ?thesis
    by (simp add: etl_script_def etl_run_def m_bind_def i logging_def emit_def m_try_def
        m_raise_def)
qed


text \<open>
  C10 (amended). \<open>main\<close> of DB\_Migration/pipeline.py catches and logs every exception
  of extraction, transformation and loading, closes the MySQL connection when one was
  opened, and returns: unless the close itself raises the exit status is 0, also after a
  failure. The script of pipeline.py exits with status 0 when every driver call other
  than an insert returns, whatever the inserts answer and whatever the rows hold; when
  extraction raises it exits with status 1, and \<open>extract\<close> has closed the MySQL
  connection, when one was opened, before that.
\<close>

theorem C10_exit_status:
  "((\<forall>t. \<exists>rows. world t Close = Inr rows) \<longrightarrow> exit_status (fst (main world s)) = 0)
   \<and> (world (trace s) Connect = Inr r \<and> (\<forall>t. \<exists>rows. world t Close = Inr rows) \<longrightarrow>
        (\<exists>t. trace (snd (main world s))
               = t @ [Close, Log INFO ''MySQL connection closed'' []]))
   \<and> ((\<forall>t ev. (\<exists>c docs. ev = InsertMany c docs) \<or> (\<exists>rows. world t ev = Inr rows)) \<longrightarrow>
        exit_status (fst (etl_script world s)) = 0)
   \<and> (world (trace s) MongoClient = Inr r0
        \<and> etl_extract world
             (s\<lparr>trace := trace s @ [MongoClient, Log INFO ''Connected to MongoDB.'' [],
                                     Log INFO ''ETL pipeline started.'' []]\<rparr>) = (Inl e, s3)
      \<longrightarrow> etl_script world s
            = (Inl (SystemExit 1),
               s3\<lparr>trace := trace s3 @ [Log ERROR ''ETL pipeline failed: {e}'' [AExn e]]\<rparr>)
          \<and> exit_status (fst (etl_script world s)) = 1)
   \<and> (world (trace s) Connect = Inr r \<and> (\<forall>t. \<exists>rows. world t Close = Inr rows) \<longrightarrow>
        (\<exists>t. trace (snd (etl_extract world s))
               = t @ [Close, Log INFO ''Closed MySQL connection.'' []]))"
proof (intro conjI impI)
  assume "\<forall>t. \<exists>rows. world t Close = Inr rows"
  from main_returns[where world = world, OF this]
  show "exit_status (fst (main world s)) = 0" by (simp add: exit_status_def)
next
  assume "world (trace s) Connect = Inr r \<and> (\<forall>t. \<exists>rows. world t Close = Inr rows)"
  then show "\<exists>t. trace (snd (main world s))
               = t @ [Close, Log INFO ''MySQL connection closed'' []]"
    using main_closes[where world = world and s = s and r = r] by blast
next
  assume "\<forall>t ev. (\<exists>c docs. ev = InsertMany c docs) \<or> (\<exists>rows. world t ev = Inr rows)"
  from etl_script_returns[where world = world, OF this]
  show "exit_status (fst (etl_script world s)) = 0" by (simp add: exit_status_def)
next
  assume a: "world (trace s) MongoClient = Inr r0
        \<and> etl_extract world
             (s\<lparr>trace := trace s @ [MongoClient, Log INFO ''Connected to MongoDB.'' [],
                                     Log INFO ''ETL pipeline started.'' []]\<rparr>) = (Inl e, s3)"
  then have 1: "world (trace s) MongoClient = Inr r0"
    and 2: "etl_extract world
             (s\<lparr>trace := trace s @ [MongoClient, Log INFO ''Connected to MongoDB.'' [],
                                     Log INFO ''ETL pipeline started.'' []]\<rparr>) = (Inl e, s3)"
    by simp_all
  from etl_script_extraction_fails[where world = world and s = s, OF 1 2]
  show "etl_script world s
            = (Inl (SystemExit 1),
               s3\<lparr>trace := trace s3 @ [Log ERROR ''ETL pipeline failed: {e}'' [AExn e]]\<rparr>)" .
  then show "exit_status (fst (etl_script world s)) = 1" by (simp add: exit_status_def)
next
  assume "world (trace s) Connect = Inr r \<and> (\<forall>t. \<exists>rows. world t Close = Inr rows)"
  then show "\<exists>t. trace (snd (etl_extract world s))
               = t @ [Close, Log INFO ''Closed MySQL connection.'' []]"
    using etl_extract_closes[where world = world and s = s and r = r] by blast
qed

lemmas run_eval = main_def main_try_def connect_def extract_query_def close_def
  MongoLoader_init_def set_connection_def load_collection_def py_range_def slice_def
  etl_script_def etl_run_def etl_extract_def etl_load_def connect_etl_def fetch_data_def
  close_etl_def MongoDBLoader_init_def MongoDBLoader_close_def insert_employees_def
  insert_departments_def insert_dept_managers_def transform_department_def
  transform_dept_manager_def raised_def exit_status_def calls_of_def

theorem C10_exit_status_witness:
  "world_query_fails (trace init_state) Connect = Inr []
   \<and> world_query_fails (trace init_state) MongoClient = Inr []
   \<and> exit_status (fst (main world_query_fails init_state)) = 0
   \<and> calls_of (trace (snd (main world_query_fails init_state)))
       = [Connect, Execute ''SELECT * FROM employees'', Close]
   \<and> exit_status (fst (etl_script world_sample_bulk_error init_state)) = 0
   \<and> etl_extract world_query_fails
        (init_state\<lparr>trace := trace init_state
            @ [MongoClient, Log INFO ''Connected to MongoDB.'' [],
               Log INFO ''ETL pipeline started.'' []]\<rparr>)
       = (Inl (OtherError ''gone''),
          \<lparr>trace = [MongoClient, Log INFO ''Connected to MongoDB.'' [],
                    Log INFO ''ETL pipeline started.'' [], Connect,
                    Log INFO ''Connected to MySQL database.'' [],
                    Execute ''SELECT * FROM employees'',
                    Log ERROR ''Error executing query: {query} : {e}''
                      [AStr ''SELECT * FROM employees'', AExn (OtherError ''gone'')],
                    Log ERROR ''Error during extraction: {e}'' [AExn (OtherError ''gone'')],
                    Close, Log INFO ''Closed MySQL connection.'' []],
           connection = True\<rparr>)
   \<and> fst (etl_script world_query_fails init_state) = Inl (SystemExit 1)
   \<and> exit_status (fst (etl_script world_query_fails init_state)) = 1
   \<and> calls_of (trace (snd (etl_extract world_query_fails init_state)))
       = [Connect, Execute ''SELECT * FROM employees'', Close]"
proof -
  have h1: "\<forall>t. \<exists>rows. world_query_fails t Close = Inr rows"
    by (simp add: world_query_fails_def)
  have h2: "\<forall>t ev. (\<exists>c docs. ev = InsertMany c docs)
              \<or> (\<exists>rows. world_sample_bulk_error t ev = Inr rows)"
    by (auto simp: world_sample_bulk_error_def split: event.splits)
  note q = C10_exit_status[where world = world_query_fails and s = init_state and r = "[]"
      and ?r0.0 = "[]" and e = "OtherError ''gone''"
      and ?s3.0 = "\<lparr>trace = [MongoClient, Log INFO ''Connected to MongoDB.'' [],
                    Log INFO ''ETL pipeline started.'' [], Connect,
                    Log INFO ''Connected to MySQL database.'' [],
                    Execute ''SELECT * FROM employees'',
                    Log ERROR ''Error executing query: {query} : {e}''
                      [AStr ''SELECT * FROM employees'', AExn (OtherError ''gone'')],
                    Log ERROR ''Error during extraction: {e}'' [AExn (OtherError ''gone'')],
                    Close, Log INFO ''Closed MySQL connection.'' []],
           connection = True\<rparr>"]
  note b = C10_exit_status[where world = world_sample_bulk_error and s = init_state]
  from q b h1 h2 show ?thesis
    by (simp add: run_eval world_query_fails_def m_defs emit_def init_state_def)
qed

text \<open>
  C10 as stated fails: when MongoDB refuses every write, \<open>main\<close> logs the failure of
  the load, closes the MySQL connection and returns, and the script of pipeline.py logs
  the failed inserts and completes: both exit with status 0.
\<close>

theorem C10_counterexample:
  "exit_status (fst (main world_mongo_down init_state)) = 0
   \<and> calls_of (trace (snd (main world_mongo_down init_state)))
       = [Connect, Execute ''SELECT * FROM employees'', Execute ''SELECT * FROM departments'',
          Execute ''SELECT * FROM dept_emp'', Execute ''SELECT * FROM dept_manager'',
          Execute ''SELECT * FROM salaries'', Execute ''SELECT * FROM titles'', MongoClient,
          DeleteMany ''employees'', Close]
   \<and> exit_status (fst (etl_script world_mongo_down init_state)) = 0"
  by (simp add: run_eval etl_eval eval_defs world_mongo_down_def sample_employee_early_def
      transform_title_def transform_salary_def transform_department_assignment_def)

end
